theory Spec2Isabelle
  imports Complex_Main "HOL-Library.Word"
begin

section \<open>Python primitives used by the UDP bridge\<close>

text \<open>
  The bridge module (\<^verbatim>\<open>aioswitcher/bridge.py\<close>) parses a datagram with a handful of
  library calls: \<^verbatim>\<open>binascii.hexlify\<close>, slicing, \<^verbatim>\<open>int(s, 16)\<close>, \<^verbatim>\<open>int(s)\<close>,
  \<^verbatim>\<open>struct.pack\<close>, \<^verbatim>\<open>socket.inet_ntoa\<close>, \<^verbatim>\<open>bytes.decode\<close>, \<^verbatim>\<open>str.upper\<close>,
  \<^verbatim>\<open>str.rstrip\<close> and \<^verbatim>\<open>dict(...)\<close>. Each is modelled below; every call that can
  raise returns a value of \<open>error + 'a\<close>, with \<open>Inl\<close> carrying the exception.
\<close>

type_synonym byte = "8 word"
type_synonym bytes = "byte list"

text \<open>A Python \<^verbatim>\<open>str\<close> that may hold any code point (device name, remote id).\<close>
type_synonym unicode = "nat list"

datatype error =
    KeyError
  | ValueError
  | UnicodeDecodeError
  | StructError
  | OSError
  | HelperError string

text \<open>Sequencing of two computations, the first exception wins (left-to-right evaluation).\<close>

definition then_res :: "error + 'a \<Rightarrow> ('a \<Rightarrow> error + 'b) \<Rightarrow> error + 'b" where
  "then_res m f = (case m of Inl e \<Rightarrow> Inl e | Inr x \<Rightarrow> f x)"

text \<open>\<^verbatim>\<open>xs[i:j]\<close> for literal bounds \<open>0 \<le> i \<le> j\<close>: out-of-range bounds are clamped.\<close>

definition slice :: "nat \<Rightarrow> nat \<Rightarrow> 'a list \<Rightarrow> 'a list" where
  "slice i j xs = take (j - i) (drop i xs)"

definition hex_char :: "nat \<Rightarrow> char" where
  "hex_char n = ''0123456789abcdef'' ! n"

definition hexlify_byte :: "byte \<Rightarrow> string" where
  "hexlify_byte b = [hex_char (unat b div 16), hex_char (unat b mod 16)]"

text \<open>\<^verbatim>\<open>binascii.hexlify\<close>: two lowercase hexadecimal digits per byte.\<close>

definition hexlify :: "bytes \<Rightarrow> string" where
  "hexlify message = concat (map hexlify_byte message)"

text \<open>Value of one digit as \<^verbatim>\<open>int(s, base)\<close> reads it (both letter cases).\<close>

definition digit_val :: "char \<Rightarrow> nat option" where
  "digit_val c =
     (let n = (of_char c :: nat) in
      if 48 \<le> n \<and> n \<le> 57 then Some (n - 48)
      else if 97 \<le> n \<and> n \<le> 102 then Some (n - 87)
      else if 65 \<le> n \<and> n \<le> 70 then Some (n - 55)
      else None)"

fun digits_value :: "nat \<Rightarrow> int \<Rightarrow> string \<Rightarrow> int option" where
  "digits_value base acc [] = Some acc"
| "digits_value base acc (c # cs) =
     (case digit_val c of
        None \<Rightarrow> None
      | Some v \<Rightarrow> if v < base then digits_value base (acc * int base + int v) cs else None)"

text \<open>
  \<^verbatim>\<open>int(s, base)\<close> on the strings the parser passes to it: slices of \<^verbatim>\<open>hexlify\<close>
  output, hence digits only (no sign, blank, underscore or prefix). The empty string and a
  digit outside the base raise \<^verbatim>\<open>ValueError\<close>.
\<close>

definition py_int :: "string \<Rightarrow> nat \<Rightarrow> error + int" where
  "py_int s base =
     (if s = [] then Inl ValueError
      else case digits_value base 0 s of None \<Rightarrow> Inl ValueError | Some n \<Rightarrow> Inr n)"

text \<open>\<^verbatim>\<open>struct.pack("<L", n)\<close> and \<^verbatim>\<open>struct.pack(">L", n)\<close>.\<close>

definition pack_L_le :: "int \<Rightarrow> error + bytes" where
  "pack_L_le n =
     (if 0 \<le> n \<and> n < 2 ^ 32
      then Inr [word_of_int n, word_of_int (n div 2 ^ 8),
                word_of_int (n div 2 ^ 16), word_of_int (n div 2 ^ 24)]
      else Inl StructError)"

definition pack_L_be :: "int \<Rightarrow> error + bytes" where
  "pack_L_be n =
     (if 0 \<le> n \<and> n < 2 ^ 32
      then Inr [word_of_int (n div 2 ^ 24), word_of_int (n div 2 ^ 16),
                word_of_int (n div 2 ^ 8), word_of_int n]
      else Inl StructError)"

definition dec_char :: "nat \<Rightarrow> char" where
  "dec_char n = ''0123456789'' ! n"

text \<open>Decimal rendering of a byte, as \<^verbatim>\<open>inet_ntoa\<close> prints each octet.\<close>

definition str_of_octet :: "byte \<Rightarrow> string" where
  "str_of_octet b =
     (let n = unat b in
      if n < 10 then [dec_char n]
      else if n < 100 then [dec_char (n div 10), dec_char (n mod 10)]
      else [dec_char (n div 100), dec_char (n div 10 mod 10), dec_char (n mod 10)])"

text \<open>\<^verbatim>\<open>socket.inet_ntoa\<close>: dotted quad of exactly four bytes, in the order given.\<close>

definition inet_ntoa :: "bytes \<Rightarrow> error + string" where
  "inet_ntoa packed =
     (case packed of
        [a, b, c, d] \<Rightarrow>
          Inr (str_of_octet a @ ''.'' @ str_of_octet b @ ''.'' @ str_of_octet c @ ''.''
               @ str_of_octet d)
      | _ \<Rightarrow> Inl OSError)"

text \<open>\<^verbatim>\<open>str.upper\<close> on ASCII text.\<close>

definition upper_char :: "char \<Rightarrow> char" where
  "upper_char c =
     (case map_of (zip ''abcdefghijklmnopqrstuvwxyz'' ''ABCDEFGHIJKLMNOPQRSTUVWXYZ'') c of
        None \<Rightarrow> c
      | Some u \<Rightarrow> u)"

definition upper :: "string \<Rightarrow> string" where
  "upper s = map upper_char s"

text \<open>
  \<^verbatim>\<open>bytes.decode()\<close>: strict UTF-8. Only well-formed sequences are accepted (no overlong
  forms, no surrogates, nothing above U+10FFFF); anything else raises
  \<^verbatim>\<open>UnicodeDecodeError\<close>. Bytes are given by their values.
\<close>

definition cont :: "nat \<Rightarrow> bool" where
  "cont b = (128 \<le> b \<and> b \<le> 191)"

fun utf8 :: "nat list \<Rightarrow> unicode option" where
  "utf8 [] = Some []"
| "utf8 (b0 # bs) =
     (if b0 < 128 then map_option ((#) b0) (utf8 bs)
      else if 194 \<le> b0 \<and> b0 \<le> 223 then
        (case bs of
           b1 # r \<Rightarrow>
             if cont b1
             then map_option ((#) ((b0 - 192) * 64 + (b1 - 128))) (utf8 r)
             else None
         | _ \<Rightarrow> None)
      else if 224 \<le> b0 \<and> b0 \<le> 239 then
        (case bs of
           b1 # b2 # r \<Rightarrow>
             if (if b0 = 224 then 160 \<le> b1 \<and> b1 \<le> 191
                 else if b0 = 237 then 128 \<le> b1 \<and> b1 \<le> 159
                 else cont b1) \<and> cont b2
             then map_option
                    ((#) ((b0 - 224) * 4096 + (b1 - 128) * 64 + (b2 - 128))) (utf8 r)
             else None
         | _ \<Rightarrow> None)
      else if 240 \<le> b0 \<and> b0 \<le> 244 then
        (case bs of
           b1 # b2 # b3 # r \<Rightarrow>
             if (if b0 = 240 then 144 \<le> b1 \<and> b1 \<le> 191
                 else if b0 = 244 then 128 \<le> b1 \<and> b1 \<le> 143
                 else cont b1) \<and> cont b2 \<and> cont b3
             then map_option
                    ((#) ((b0 - 240) * 262144 + (b1 - 128) * 4096 + (b2 - 128) * 64
                          + (b3 - 128))) (utf8 r)
             else None
         | _ \<Rightarrow> None)
      else None)"

definition decode :: "bytes \<Rightarrow> error + unicode" where
  "decode bs = (case utf8 (map unat bs) of None \<Rightarrow> Inl UnicodeDecodeError | Some s \<Rightarrow> Inr s)"

text \<open>\<^verbatim>\<open>s.rstrip("\x00")\<close>: drop the trailing NUL characters.\<close>

definition rstrip_nul :: "unicode \<Rightarrow> unicode" where
  "rstrip_nul s = rev (dropWhile (\<lambda>c. c = 0) (rev s))"

text \<open>\<^verbatim>\<open>dict(pairs)\<close>: a later pair with the same key replaces an earlier one.\<close>

definition py_dict :: "('k \<times> 'v) list \<Rightarrow> ('k \<rightharpoonup> 'v)" where
  "py_dict kvs = fold (\<lambda>(k, v) m. m(k \<mapsto> v)) kvs Map.empty"

section \<open>Data model\<close>

text \<open>
  Modelled from the spec: the enumerations and device classes of \<^verbatim>\<open>aioswitcher.device\<close>
  are imported by the bridge but are not among the source files. Their shape is taken from
  the data model of the specification and from the way \<^verbatim>\<open>bridge.py\<close> uses them; the
  tables of wire codes, which the specification does not list, are parameters (see \<open>env\<close>).
\<close>

datatype DeviceCategory = WATER_HEATER | POWER_PLUG | THERMOSTAT | SHUTTER

datatype DeviceState = ON | OFF

text \<open>Modelled from the spec: device state has the wire encoding \<^verbatim>\<open>"01"\<close>/\<^verbatim>\<open>"00"\<close>.\<close>

fun DeviceState_value :: "DeviceState \<Rightarrow> string" where
  "DeviceState_value ON = ''01''"
| "DeviceState_value OFF = ''00''"

text \<open>
  Modelled from the spec: shutter direction is one of up, down and stop; thermostat mode one
  of auto, dry, fan, cool and heat; fan level one of auto, low, medium and high; swing is on
  or off. Their wire codes are parameters, except the swing code for off.
\<close>

datatype ShutterDirection = SHUTTER_STOP | SHUTTER_UP | SHUTTER_DOWN

datatype ThermostatMode = AUTO | DRY | FAN | COOL | HEAT

datatype ThermostatFanLevel = LEVEL_AUTO | LOW | MEDIUM | HIGH

datatype ThermostatSwing = SWING_OFF | SWING_ON

text \<open>
  Modelled from the spec: the swing nibble \<^verbatim>\<open>"0"\<close> means off, anything else on. This is
  \<^verbatim>\<open>ThermostatSwing.OFF.value\<close>, the only swing code the bridge reads.
\<close>

definition ThermostatSwing_OFF_value :: string where
  "ThermostatSwing_OFF_value = ''0''"

text \<open>
  Modelled from the spec: a member of the \<^verbatim>\<open>DeviceType\<close> enumeration carries a 4-hex-digit
  model code (\<open>hex_rep\<close>), a protocol family and a category. Python compares enumeration
  members by identity, and members with equal values are one member; equality of records is
  that comparison.
\<close>

record DeviceType =
  type_name :: string
  hex_rep :: string
  protocol_type :: nat
  category :: DeviceCategory

text \<open>
  The device records, with the constructor arguments in the positional order in which
  \<^verbatim>\<open>_parse_device_from_datagram\<close> passes them. Python floats (electric current, temperature)
  are read as the real numbers they denote.
\<close>

datatype SwitcherBase =
    SwitcherWaterHeater DeviceType DeviceState string string string unicode int real
      string string
  | SwitcherPowerPlug DeviceType DeviceState string string string unicode int real
  | SwitcherShutter DeviceType DeviceState string string string unicode int ShutterDirection
  | SwitcherThermostat DeviceType DeviceState string string string unicode ThermostatMode
      real int ThermostatFanLevel ThermostatSwing unicode

text \<open>
  What the bridge needs from modules that are not among the source files: the members of
  the enumerations in iteration order (for the mode, direction and fan level each with its
  \<^verbatim>\<open>.value\<close>), the member \<^verbatim>\<open>DeviceType.BREEZE\<close>, and the two conversion helpers of
  \<^verbatim>\<open>aioswitcher.device.tools\<close>, which may raise. Every result below holds for all of them.
\<close>

record env =
  DeviceType_members :: "DeviceType list"
  BREEZE :: DeviceType
  ThermostatMode_members :: "(string \<times> ThermostatMode) list"
  ShutterDirection_members :: "(string \<times> ShutterDirection) list"
  ThermostatFanLevel_members :: "(string \<times> ThermostatFanLevel) list"
  seconds_to_iso_time :: "int \<Rightarrow> error + string"
  watts_to_amps :: "int \<Rightarrow> error + real"

section \<open>DatagramParser\<close>

definition is_switcher_originator :: "bytes \<Rightarrow> bool" where
  "is_switcher_originator message =
     (slice 0 4 (hexlify message) = ''fef0'' \<and>
      (length message = 165 \<or> length message = 168 \<or> length message = 159))"

definition get_ip_type1 :: "bytes \<Rightarrow> error + string" where
  "get_ip_type1 message =
     (let hex_ip = slice 152 160 (hexlify message) in
      then_res
        (py_int (slice 6 8 hex_ip @ slice 4 6 hex_ip @ slice 2 4 hex_ip @ slice 0 2 hex_ip) 16)
        (\<lambda>ip_addr. then_res (pack_L_le ip_addr) inet_ntoa))"

definition get_ip_type2 :: "bytes \<Rightarrow> error + string" where
  "get_ip_type2 message =
     (let hex_ip = slice 154 162 (hexlify message) in
      then_res
        (py_int (slice 0 2 hex_ip @ slice 2 4 hex_ip @ slice 4 6 hex_ip @ slice 6 8 hex_ip) 16)
        (\<lambda>ip_addr. then_res (pack_L_be ip_addr) inet_ntoa))"

definition get_mac :: "bytes \<Rightarrow> string" where
  "get_mac message =
     (let hex_mac = upper (slice 160 172 (hexlify message)) in
      slice 0 2 hex_mac @ '':'' @ slice 2 4 hex_mac @ '':'' @ slice 4 6 hex_mac @ '':''
      @ slice 6 8 hex_mac @ '':'' @ slice 8 10 hex_mac @ '':'' @ slice 10 12 hex_mac)"

definition get_name :: "bytes \<Rightarrow> error + unicode" where
  "get_name message = then_res (decode (slice 42 74 message)) (\<lambda>s. Inr (rstrip_nul s))"

definition get_device_id :: "bytes \<Rightarrow> string" where
  "get_device_id message = slice 36 42 (hexlify message)"

definition get_device_state :: "bytes \<Rightarrow> DeviceState" where
  "get_device_state message =
     (let hex_device_state = slice 266 268 (hexlify message) in
      if hex_device_state = DeviceState_value ON then ON else OFF)"

definition get_auto_shutdown :: "env \<Rightarrow> bytes \<Rightarrow> error + string" where
  "get_auto_shutdown env message =
     (let hex_auto_shutdown_val = slice 310 318 (hexlify message) in
      then_res
        (py_int (slice 6 8 hex_auto_shutdown_val @ slice 4 6 hex_auto_shutdown_val
                 @ slice 2 4 hex_auto_shutdown_val @ slice 0 2 hex_auto_shutdown_val) 16)
        (seconds_to_iso_time env))"

definition get_power_consumption :: "bytes \<Rightarrow> error + int" where
  "get_power_consumption message =
     (let hex_power_consumption = slice 270 278 (hexlify message) in
      py_int (slice 2 4 hex_power_consumption @ slice 0 2 hex_power_consumption) 16)"

definition get_remaining :: "env \<Rightarrow> bytes \<Rightarrow> error + string" where
  "get_remaining env message =
     (let hex_remaining_time = slice 294 302 (hexlify message) in
      then_res
        (py_int (slice 6 8 hex_remaining_time @ slice 4 6 hex_remaining_time
                 @ slice 2 4 hex_remaining_time @ slice 0 2 hex_remaining_time) 16)
        (seconds_to_iso_time env))"

definition get_device_type :: "env \<Rightarrow> bytes \<Rightarrow> error + DeviceType" where
  "get_device_type env message =
     (let hex_model = hexlify (slice 74 76 message);
          devices = py_dict (map (\<lambda>d. (hex_rep d, d)) (DeviceType_members env))
      in case devices hex_model of None \<Rightarrow> Inl KeyError | Some d \<Rightarrow> Inr d)"

definition get_shutter_position :: "bytes \<Rightarrow> error + int" where
  "get_shutter_position message =
     (let hex_pos = hexlify (slice 135 137 message) in
      then_res (py_int (slice 2 4 hex_pos) 10)
        (\<lambda>a. then_res (py_int (slice 0 2 hex_pos) 16) (\<lambda>b. Inr (a + b))))"

definition get_shutter_direction :: "env \<Rightarrow> bytes \<Rightarrow> error + ShutterDirection" where
  "get_shutter_direction env message =
     (let hex_direction = hexlify (slice 137 139 message);
          directions = py_dict (ShutterDirection_members env)
      in case directions hex_direction of None \<Rightarrow> Inl KeyError | Some d \<Rightarrow> Inr d)"

definition get_thermostat_temp :: "bytes \<Rightarrow> error + real" where
  "get_thermostat_temp message =
     (let hex_temp = hexlify (slice 135 137 message) in
      then_res (py_int (slice 2 4 hex_temp @ slice 0 2 hex_temp) 16)
        (\<lambda>n. Inr (real_of_int n / 10)))"

definition get_thermostat_state :: "bytes \<Rightarrow> DeviceState" where
  "get_thermostat_state message =
     (let hex_power = hexlify (slice 137 138 message) in
      if hex_power = DeviceState_value ON then ON else OFF)"

definition get_thermostat_mode :: "env \<Rightarrow> bytes \<Rightarrow> ThermostatMode" where
  "get_thermostat_mode env message =
     (let hex_mode = hexlify (slice 138 139 message);
          states = py_dict (ThermostatMode_members env)
      in case states hex_mode of None \<Rightarrow> COOL | Some m \<Rightarrow> m)"

definition get_thermostat_target_temp :: "bytes \<Rightarrow> error + int" where
  "get_thermostat_target_temp message =
     (let hex_temp = hexlify (slice 139 140 message) in py_int hex_temp 16)"

definition get_thermostat_fan_level :: "env \<Rightarrow> bytes \<Rightarrow> error + ThermostatFanLevel" where
  "get_thermostat_fan_level env message =
     (let hex_level = hexlify (slice 140 141 message);
          states = py_dict (ThermostatFanLevel_members env)
      in case states (slice 0 1 hex_level) of None \<Rightarrow> Inl KeyError | Some l \<Rightarrow> Inr l)"

definition get_thermostat_swing :: "bytes \<Rightarrow> ThermostatSwing" where
  "get_thermostat_swing message =
     (let hex_swing = hexlify (slice 140 141 message) in
      if slice 1 2 hex_swing = ThermostatSwing_OFF_value then SWING_OFF else SWING_ON)"

definition get_thermostat_remote_id :: "bytes \<Rightarrow> error + unicode" where
  "get_thermostat_remote_id message = decode (slice 143 151 message)"

section \<open>The datagram callback\<close>

text \<open>
  \<^verbatim>\<open>_parse_device_from_datagram\<close> returns nothing; what it does is call the sink, write a
  debug line, emit a warning, or raise. The model returns the effects in the order they
  happen, and the exception that ended the call, if any.
\<close>

datatype event = LogDebug string | Warn string | DeviceCallback SwitcherBase

type_synonym outcome = "event list \<times> error option"

text \<open>
  The debug line is written first, then the constructor arguments are evaluated from left
  to right, then the sink is called.
\<close>

definition deliver :: "string \<Rightarrow> error + SwitcherBase \<Rightarrow> outcome" where
  "deliver msg built =
     (case built of
        Inl e \<Rightarrow> ([LogDebug msg], Some e)
      | Inr device \<Rightarrow> ([LogDebug msg, DeviceCallback device], None))"

definition new_water_heater ::
  "env \<Rightarrow> bytes \<Rightarrow> DeviceType \<Rightarrow> DeviceState \<Rightarrow> int \<Rightarrow> real \<Rightarrow> error + SwitcherBase" where
  "new_water_heater env datagram device_type device_state power_consumption electric_current =
     then_res (get_ip_type1 datagram) (\<lambda>ip.
     then_res (get_name datagram) (\<lambda>name.
     then_res (if device_state = ON then get_remaining env datagram else Inr ''00:00:00'')
       (\<lambda>remaining.
     then_res (get_auto_shutdown env datagram) (\<lambda>auto_shutdown.
       Inr (SwitcherWaterHeater device_type device_state (get_device_id datagram) ip
              (get_mac datagram) name power_consumption electric_current remaining
              auto_shutdown)))))"

definition new_power_plug ::
  "bytes \<Rightarrow> DeviceType \<Rightarrow> DeviceState \<Rightarrow> int \<Rightarrow> real \<Rightarrow> error + SwitcherBase" where
  "new_power_plug datagram device_type device_state power_consumption electric_current =
     then_res (get_ip_type1 datagram) (\<lambda>ip.
     then_res (get_name datagram) (\<lambda>name.
       Inr (SwitcherPowerPlug device_type device_state (get_device_id datagram) ip
              (get_mac datagram) name power_consumption electric_current)))"

definition new_shutter :: "env \<Rightarrow> bytes \<Rightarrow> DeviceType \<Rightarrow> error + SwitcherBase" where
  "new_shutter env datagram device_type =
     then_res (get_ip_type2 datagram) (\<lambda>ip.
     then_res (get_name datagram) (\<lambda>name.
     then_res (get_shutter_position datagram) (\<lambda>position.
     then_res (get_shutter_direction env datagram) (\<lambda>direction.
       Inr (SwitcherShutter device_type ON (get_device_id datagram) ip (get_mac datagram)
              name position direction)))))"

definition new_thermostat ::
  "env \<Rightarrow> bytes \<Rightarrow> DeviceType \<Rightarrow> DeviceState \<Rightarrow> error + SwitcherBase" where
  "new_thermostat env datagram device_type device_state =
     then_res (get_ip_type2 datagram) (\<lambda>ip.
     then_res (get_name datagram) (\<lambda>name.
     then_res (get_thermostat_temp datagram) (\<lambda>temp.
     then_res (get_thermostat_target_temp datagram) (\<lambda>target_temp.
     then_res (get_thermostat_fan_level env datagram) (\<lambda>fan_level.
     then_res (get_thermostat_remote_id datagram) (\<lambda>remote_id.
       Inr (SwitcherThermostat device_type device_state (get_device_id datagram) ip
              (get_mac datagram) name (get_thermostat_mode env datagram) temp target_temp
              fan_level (get_thermostat_swing datagram) remote_id)))))))"

definition parse_device_from_datagram :: "env \<Rightarrow> bytes \<Rightarrow> outcome" where
  "parse_device_from_datagram env datagram =
     (if \<not> is_switcher_originator datagram
      then ([LogDebug ''received datagram from an unknown source''], None)
      else
        case get_device_type env datagram of
          Inl e \<Rightarrow> ([], Some e)
        | Inr device_type \<Rightarrow>
            let device_state =
                  (if device_type = BREEZE env then get_thermostat_state datagram
                   else get_device_state datagram)
            in
            case (if device_state = ON
                  then then_res (get_power_consumption datagram) (\<lambda>power_consumption.
                       then_res (watts_to_amps env power_consumption) (\<lambda>electric_current.
                         Inr (power_consumption, electric_current)))
                  else Inr (0, 0)) of
              Inl e \<Rightarrow> ([], Some e)
            | Inr (power_consumption, electric_current) \<Rightarrow>
                if category device_type = WATER_HEATER then
                  deliver ''discovered a water heater switcher device''
                    (new_water_heater env datagram device_type device_state
                       power_consumption electric_current)
                else if category device_type = POWER_PLUG then
                  deliver ''discovered a power plug switcher device''
                    (new_power_plug datagram device_type device_state
                       power_consumption electric_current)
                else if category device_type = SHUTTER then
                  deliver ''discovered a Runner switch switcher device''
                    (new_shutter env datagram device_type)
                else if category device_type = THERMOSTAT then
                  deliver ''discovered a Breeze switcher device''
                    (new_thermostat env datagram device_type device_state)
                else ([Warn ''discovered an unknown switcher device''], None))"

text \<open>The devices handed to the sink, in call order.\<close>

fun sink_calls :: "event list \<Rightarrow> SwitcherBase list" where
  "sink_calls [] = []"
| "sink_calls (DeviceCallback device # evs) = device # sink_calls evs"
| "sink_calls (_ # evs) = sink_calls evs"

fun warnings :: "event list \<Rightarrow> string list" where
  "warnings [] = []"
| "warnings (Warn w # evs) = w # warnings evs"
| "warnings (_ # evs) = warnings evs"

text \<open>
  Two ways a call can end: one debug line and one device handed to the sink, or an
  exception raised before any device was handed over and without a warning.
\<close>

fun delivers_one :: "outcome \<Rightarrow> bool" where
  "delivers_one ([LogDebug _, DeviceCallback _], None) = True"
| "delivers_one _ = False"

fun raises_undelivered :: "outcome \<Rightarrow> bool" where
  "raises_undelivered (evs, Some _) = (sink_calls evs = [] \<and> warnings evs = [])"
| "raises_undelivered (_, None) = False"

text \<open>Field access on a device record (fields shared by all four classes).\<close>

fun device_state :: "SwitcherBase \<Rightarrow> DeviceState" where
  "device_state (SwitcherWaterHeater _ st _ _ _ _ _ _ _ _) = st"
| "device_state (SwitcherPowerPlug _ st _ _ _ _ _ _) = st"
| "device_state (SwitcherShutter _ st _ _ _ _ _ _) = st"
| "device_state (SwitcherThermostat _ st _ _ _ _ _ _ _ _ _ _) = st"

fun ip_address :: "SwitcherBase \<Rightarrow> string" where
  "ip_address (SwitcherWaterHeater _ _ _ ip _ _ _ _ _ _) = ip"
| "ip_address (SwitcherPowerPlug _ _ _ ip _ _ _ _) = ip"
| "ip_address (SwitcherShutter _ _ _ ip _ _ _ _) = ip"
| "ip_address (SwitcherThermostat _ _ _ ip _ _ _ _ _ _ _ _) = ip"

text \<open>The class of a device record, named by the category it is built for.\<close>

fun kind :: "SwitcherBase \<Rightarrow> DeviceCategory" where
  "kind (SwitcherWaterHeater _ _ _ _ _ _ _ _ _ _) = WATER_HEATER"
| "kind (SwitcherPowerPlug _ _ _ _ _ _ _ _) = POWER_PLUG"
| "kind (SwitcherShutter _ _ _ _ _ _ _ _) = SHUTTER"
| "kind (SwitcherThermostat _ _ _ _ _ _ _ _ _ _ _ _) = THERMOSTAT"

text \<open>Fields that only some classes have: \<open>None\<close> where the class lacks the field.\<close>

fun power_consumption :: "SwitcherBase \<Rightarrow> int option" where
  "power_consumption (SwitcherWaterHeater _ _ _ _ _ _ p _ _ _) = Some p"
| "power_consumption (SwitcherPowerPlug _ _ _ _ _ _ p _) = Some p"
| "power_consumption _ = None"

fun electric_current :: "SwitcherBase \<Rightarrow> real option" where
  "electric_current (SwitcherWaterHeater _ _ _ _ _ _ _ c _ _) = Some c"
| "electric_current (SwitcherPowerPlug _ _ _ _ _ _ _ c) = Some c"
| "electric_current _ = None"

fun remaining_time :: "SwitcherBase \<Rightarrow> string option" where
  "remaining_time (SwitcherWaterHeater _ _ _ _ _ _ _ _ r _) = Some r"
| "remaining_time _ = None"

fun shutter_position :: "SwitcherBase \<Rightarrow> int option" where
  "shutter_position (SwitcherShutter _ _ _ _ _ _ p _) = Some p"
| "shutter_position _ = None"

fun thermostat_mode :: "SwitcherBase \<Rightarrow> ThermostatMode option" where
  "thermostat_mode (SwitcherThermostat _ _ _ _ _ _ m _ _ _ _ _) = Some m"
| "thermostat_mode _ = None"

section \<open>The shutter position as the specification words it\<close>

text \<open>
  The specification's reading of the two bytes at offset 135: the first byte read as
  decimal plus the second byte read as hexadecimal. It is compared below with
  \<open>get_shutter_position\<close>, which is the source's.
\<close>

definition shutter_position_as_specified :: "bytes \<Rightarrow> error + int" where
  "shutter_position_as_specified message =
     (let hex_pos = hexlify (slice 135 137 message) in
      then_res (py_int (slice 0 2 hex_pos) 10)
        (\<lambda>a. then_res (py_int (slice 2 4 hex_pos) 16) (\<lambda>b. Inr (a + b))))"

section \<open>The TCP session\<close>

text \<open>
  Modelled from the spec: the TCP protocol engine (\<^verbatim>\<open>aioswitcher.api\<close>) is not among the
  source files; only its test module is. The session lifecycle of the specification is:
  send the login packet, read one response and fail with
  \<^verbatim>\<open>login request was not successful\<close> if it is empty or not a well-formed login response;
  otherwise send the operation request, read one response and fail with
  \<^verbatim>\<open><operation> request was not successful\<close> if it is empty. The connection is the
  test module's mock: \<open>reader n\<close> is what the \<open>n\<close>-th read returns, and every write is
  counted. Which non-empty responses are well-formed login responses is a parameter.
\<close>

datatype packet = LoginPacket | RequestPacket string bytes

datatype api_error = RuntimeError string

record session =
  writes :: "packet list"
  result :: "api_error + bytes"

definition run_operation ::
  "(bytes \<Rightarrow> bool) \<Rightarrow> string \<Rightarrow> (nat \<Rightarrow> bytes) \<Rightarrow> session" where
  "run_operation well_formed_login operation reader =
     (let login_response = reader 0 in
      if login_response = [] \<or> \<not> well_formed_login login_response
      then \<lparr>writes = [LoginPacket],
            result = Inl (RuntimeError ''login request was not successful'')\<rparr>
      else
        let response = reader 1 in
        if response = []
        then \<lparr>writes = [LoginPacket, RequestPacket operation login_response],
              result = Inl (RuntimeError (operation @ '' request was not successful''))\<rparr>
        else \<lparr>writes = [LoginPacket, RequestPacket operation login_response],
              result = Inr response\<rparr>)"

section \<open>Sample inputs\<close>

text \<open>
  A sample instance of the parameters, used only to run the parser on concrete datagrams.
  The model codes and wire codes in it are examples; no result depends on them.
\<close>

function str_of_nat :: "nat \<Rightarrow> string" where
  "str_of_nat n =
     (if n < 10 then [dec_char n] else str_of_nat (n div 10) @ [dec_char (n mod 10)])"
  by pat_completeness auto
termination
  by (relation "measure id") auto

declare str_of_nat.simps [simp del]

definition pad2 :: "nat \<Rightarrow> string" where
  "pad2 n = (if n < 10 then ''0'' @ str_of_nat n else str_of_nat n)"

text \<open>
  Modelled from the spec: \<^verbatim>\<open>seconds_to_iso_time\<close> of \<^verbatim>\<open>aioswitcher.device.tools\<close> is not
  among the source files. Seconds format to \<^verbatim>\<open>HH:MM:SS\<close>, with hours unbounded (the parser
  passes non-negative values only).
\<close>

definition seconds_to_iso_time_spec :: "int \<Rightarrow> error + string" where
  "seconds_to_iso_time_spec all_seconds =
     (let s = nat all_seconds in
      Inr (pad2 (s div 3600) @ '':'' @ pad2 (s div 60 mod 60) @ '':'' @ pad2 (s mod 60)))"

text \<open>
  Modelled from the spec: \<^verbatim>\<open>watts_to_amps\<close> of \<^verbatim>\<open>aioswitcher.device.tools\<close> is not among
  the source files. Current is power divided by 220, one decimal, truncated.
\<close>

definition watts_to_amps_spec :: "int \<Rightarrow> error + real" where
  "watts_to_amps_spec watts = Inr (real_of_int (watts * 10 div 220) / 10)"

definition sample_heater :: DeviceType where
  "sample_heater =
     \<lparr>type_name = ''Switcher V2'', hex_rep = ''0100'', protocol_type = 1,
      category = WATER_HEATER\<rparr>"

definition sample_plug :: DeviceType where
  "sample_plug =
     \<lparr>type_name = ''Switcher Power Plug'', hex_rep = ''01a8'', protocol_type = 1,
      category = POWER_PLUG\<rparr>"

definition sample_breeze :: DeviceType where
  "sample_breeze =
     \<lparr>type_name = ''Switcher Breeze'', hex_rep = ''0e01'', protocol_type = 2,
      category = THERMOSTAT\<rparr>"

definition sample_runner :: DeviceType where
  "sample_runner =
     \<lparr>type_name = ''Switcher Runner'', hex_rep = ''0c01'', protocol_type = 2,
      category = SHUTTER\<rparr>"

definition sample_env :: env where
  "sample_env =
     \<lparr>DeviceType_members = [sample_heater, sample_plug, sample_breeze, sample_runner],
      BREEZE = sample_breeze,
      ThermostatMode_members =
        [(''01'', AUTO), (''02'', DRY), (''03'', FAN), (''04'', COOL), (''05'', HEAT)],
      ShutterDirection_members =
        [(''0000'', SHUTTER_STOP), (''0100'', SHUTTER_UP), (''0001'', SHUTTER_DOWN)],
      ThermostatFanLevel_members =
        [(''0'', LEVEL_AUTO), (''1'', LOW), (''2'', MEDIUM), (''3'', HIGH)],
      seconds_to_iso_time = seconds_to_iso_time_spec,
      watts_to_amps = watts_to_amps_spec\<rparr>"

text \<open>
  A 165-byte broadcast of a type-1 device: magic, device id \<^verbatim>\<open>3933ac\<close> at offset 18, a
  32-byte name field at 42 (\<open>name0\<close> followed by \<^verbatim>\<open>oiler\<close> and NULs), the model code at 74,
  IP bytes \<^verbatim>\<open>04 03 02 01\<close> at 76, a MAC at 80, the state byte at 133, power bytes
  \<^verbatim>\<open>A0 05\<close> at 135, remaining seconds \<^verbatim>\<open>0E 10 00 00\<close> at 147 and auto-shutdown seconds
  \<^verbatim>\<open>10 0E 00 00\<close> at 155.
\<close>

definition type1_datagram :: "byte \<Rightarrow> byte \<Rightarrow> byte \<Rightarrow> byte \<Rightarrow> bytes" where
  "type1_datagram model_hi model_lo name0 state =
     [0xFE, 0xF0] @ replicate 16 0 @ [0x39, 0x33, 0xAC] @ replicate 21 0
     @ [name0, 0x6F, 0x69, 0x6C, 0x65, 0x72] @ replicate 26 0
     @ [model_hi, model_lo] @ [0x04, 0x03, 0x02, 0x01]
     @ [0x12, 0xA1, 0xA2, 0x1A, 0xBC, 0x1A] @ replicate 47 0
     @ [state, 0x00, 0xA0, 0x05] @ replicate 10 0
     @ [0x0E, 0x10, 0x00, 0x00] @ replicate 4 0
     @ [0x10, 0x0E, 0x00, 0x00] @ replicate 6 0"

text \<open>
  A 159-byte broadcast of a shutter: model code \<^verbatim>\<open>0c 01\<close>, IP bytes
  \<^verbatim>\<open>C0 A8 01 0A\<close> at offset 77, the two position bytes at 135 and the direction code
  \<^verbatim>\<open>00 00\<close> at 137. The byte at 133 is \<^verbatim>\<open>00\<close>.
\<close>

definition shutter_datagram :: "byte \<Rightarrow> byte \<Rightarrow> bytes" where
  "shutter_datagram pos0 pos1 =
     [0xFE, 0xF0] @ replicate 16 0 @ [0x39, 0x33, 0xAC] @ replicate 21 0
     @ [0x52, 0x75, 0x6E, 0x6E, 0x65, 0x72] @ replicate 26 0
     @ [0x0C, 0x01] @ [0x00, 0xC0, 0xA8, 0x01, 0x0A]
     @ [0xA1, 0xA2, 0x1A, 0xBC, 0x1A] @ replicate 47 0
     @ [0x00, 0x00, pos0, pos1, 0x00, 0x00] @ replicate 20 0"

text \<open>
  A 168-byte broadcast of a Breeze: model code \<^verbatim>\<open>0e 01\<close>, temperature bytes
  \<^verbatim>\<open>E6 00\<close> at 135, on/off byte \<^verbatim>\<open>01\<close> at 137, the mode byte at 138, target
  temperature \<^verbatim>\<open>18\<close> at 139, fan level and swing \<^verbatim>\<open>10\<close> at 140 and the remote id
  \<^verbatim>\<open>ELEC7022\<close> at 143.
\<close>

definition breeze_datagram :: "byte \<Rightarrow> bytes" where
  "breeze_datagram mode =
     [0xFE, 0xF0] @ replicate 16 0 @ [0x39, 0x33, 0xAC] @ replicate 21 0
     @ [0x42, 0x72, 0x65, 0x65, 0x7A, 0x65] @ replicate 26 0
     @ [0x0E, 0x01] @ [0x00, 0xC0, 0xA8, 0x01, 0x0B]
     @ [0xA1, 0xA2, 0x1A, 0xBC, 0x1A] @ replicate 47 0
     @ [0x00, 0x00, 0xE6, 0x00, 0x01, mode, 0x18, 0x10, 0x00, 0x00]
     @ [0x45, 0x4C, 0x45, 0x43, 0x37, 0x30, 0x32, 0x32] @ replicate 17 0"

text \<open>A 165-byte payload that starts \<^verbatim>\<open>DE AD\<close>.\<close>

definition foreign_datagram :: bytes where
  "foreign_datagram = [0xDE, 0xAD] @ replicate 163 0"

section \<open>Properties of the primitives\<close>

lemma then_res_Inl [simp]: "then_res (Inl e) f = Inl e"
  by (simp add: then_res_def)

lemma then_res_Inr [simp]: "then_res (Inr x) f = f x"
  by (simp add: then_res_def)

lemma then_res_Inr_iff: "then_res m f = Inr y \<longleftrightarrow> (\<exists>x. m = Inr x \<and> f x = Inr y)"
  by (cases m) simp_all

lemma hex_char_inj: "m < 16 \<Longrightarrow> n < 16 \<Longrightarrow> hex_char m = hex_char n \<longleftrightarrow> m = n"
  unfolding hex_char_def by (subst nth_eq_iff_index_eq) simp_all

lemma unat_byte_less: "unat (b :: byte) < 256"
  using unsigned_less [of b, where ?'a = nat] by simp

lemma hexlify_byte_inj: "hexlify_byte a = hexlify_byte b \<longleftrightarrow> a = b"
proof
  assume h: "hexlify_byte a = hexlify_byte b"
  have "unat a div 16 < 16" "unat b div 16 < 16"
    using unat_byte_less [of a] unat_byte_less [of b] by simp_all
  with h have d: "unat a div 16 = unat b div 16"
    by (simp add: hexlify_byte_def hex_char_inj)
  from h have m: "unat a mod 16 = unat b mod 16"
    by (simp add: hexlify_byte_def hex_char_inj)
  have "unat a = unat b"
    using d m by (metis div_mult_mod_eq)
  then show "a = b" by (simp add: word_unat_eq_iff)
qed simp

lemma hexlify_Nil [simp]: "hexlify [] = []"
  by (simp add: hexlify_def)

lemma hexlify_Cons: "hexlify (b # bs) = hexlify_byte b @ hexlify bs"
  by (simp add: hexlify_def)

lemma length_hexlify_byte [simp]: "length (hexlify_byte b) = 2"
  by (simp add: hexlify_byte_def)

lemma hexlify_inj: "hexlify xs = hexlify ys \<longleftrightarrow> xs = ys"
proof (induction xs arbitrary: ys)
  case Nil
  then show ?case by (cases ys) (simp_all add: hexlify_Cons hexlify_byte_def)
next
  case (Cons x xs)
  then show ?case
    by (cases ys) (simp_all add: hexlify_Cons hexlify_byte_inj, simp add: hexlify_byte_def)
qed

lemma drop_hexlify: "drop (2 * n) (hexlify m) = hexlify (drop n m)"
proof (induction m arbitrary: n)
  case Nil
  then show ?case by simp
next
  case (Cons b m)
  show ?case
  proof (cases n)
    case 0
    then show ?thesis by simp
  next
    case (Suc k)
    with Cons [of k] show ?thesis by (simp add: hexlify_Cons)
  qed
qed

lemma take_hexlify: "take (2 * n) (hexlify m) = hexlify (take n m)"
proof (induction m arbitrary: n)
  case Nil
  then show ?case by simp
next
  case (Cons b m)
  show ?case
  proof (cases n)
    case 0
    then show ?thesis by simp
  next
    case (Suc k)
    with Cons [of k] show ?thesis by (simp add: hexlify_Cons)
  qed
qed

lemma slice_hexlify: "slice (2 * i) (2 * j) (hexlify m) = hexlify (slice i j m)"
  unfolding slice_def by (simp add: drop_hexlify take_hexlify flip: right_diff_distrib')

lemma slice_single: "i < length xs \<Longrightarrow> slice i (Suc i) xs = [xs ! i]"
  unfolding slice_def by (simp add: take_Suc_conv_app_nth hd_drop_conv_nth take_Suc)

lemma slice_nth: "j \<le> length xs \<Longrightarrow> slice i j xs = map ((!) xs) [i..<j]"
  unfolding slice_def by (rule nth_equalityI) auto

lemma slice_slice: "b \<le> j - i \<Longrightarrow> slice a b (slice i j xs) = slice (i + a) (i + b) xs"
  unfolding slice_def by (simp add: drop_take min_def add.commute)

lemma digit_val_hex_chars: "list_all (\<lambda>k. digit_val (hex_char k) = Some k) [0..<16]"
  by code_simp

lemma digit_val_hex_char: "n < 16 \<Longrightarrow> digit_val (hex_char n) = Some n"
  using digit_val_hex_chars by (simp add: list_all_iff)

lemma hex_digits_of_byte: "int (unat b div 16) * 16 + int (unat b mod 16) = uint (b :: byte)"
  by (metis of_nat_numeral of_nat_mult of_nat_add div_mult_mod_eq uint_nat)

lemma digits_value_hexlify_byte:
  "digits_value 16 acc (hexlify_byte b @ rest) = digits_value 16 (acc * 256 + uint b) rest"
proof -
  have lt: "unat b div 16 < 16" "unat b mod 16 < 16"
    using unat_byte_less [of b] by simp_all
  have e: "(acc * 16 + int (unat b div 16)) * 16 + int (unat b mod 16) = acc * 256 + uint b"
    using hex_digits_of_byte [of b] by (simp add: algebra_simps)
  have "digits_value 16 acc (hexlify_byte b @ rest) =
      digits_value 16 ((acc * 16 + int (unat b div 16)) * 16 + int (unat b mod 16)) rest"
    using lt by (simp add: hexlify_byte_def digit_val_hex_char)
  from this [unfolded e] show ?thesis .
qed

lemma digits_value_hexlify:
  "digits_value 16 acc (hexlify bs) = Some (foldl (\<lambda>a b. a * 256 + uint b) acc bs)"
  by (induction bs arbitrary: acc) (simp_all add: hexlify_Cons digits_value_hexlify_byte)

lemma hexlify_eq_Nil [simp]: "hexlify bs = [] \<longleftrightarrow> bs = []"
  using hexlify_inj [of bs "[]"] by simp

lemma py_int_hexlify:
  "bs \<noteq> [] \<Longrightarrow> py_int (hexlify bs) 16 = Inr (foldl (\<lambda>a b. a * 256 + uint b) 0 bs)"
  by (simp add: py_int_def digits_value_hexlify)

lemma py_dict_fold:
  "fold (\<lambda>(k, v) m. m(k \<mapsto> v)) kvs m0 = m0 ++ map_of (rev kvs)"
  by (induction kvs arbitrary: m0) (auto simp: map_add_upd_left fun_eq_iff map_add_def split: option.splits)

lemma py_dict_map_of: "py_dict kvs = map_of (rev kvs)"
  by (simp add: py_dict_def py_dict_fold)

lemma py_dict_None_iff: "py_dict kvs k = None \<longleftrightarrow> k \<notin> fst ` set kvs"
  by (simp add: py_dict_map_of map_of_eq_None_iff)

lemma py_dict_SomeD: "py_dict kvs k = Some v \<Longrightarrow> (k, v) \<in> set kvs"
  using map_of_SomeD [of "rev kvs" k v] by (simp add: py_dict_map_of)

lemma length_hexlify: "length (hexlify m) = 2 * length m"
  by (induction m) (simp_all add: hexlify_Cons)

lemma hexlify_single [simp]: "hexlify [b] = hexlify_byte b"
  by (simp add: hexlify_Cons)

lemma hexlify_byte_eq_01: "hexlify_byte b = ''01'' \<longleftrightarrow> b = 1"
proof -
  have "hexlify_byte 1 = ''01''"
    by (simp add: hexlify_byte_def hex_char_def)
  then show ?thesis
    using hexlify_byte_inj [of b 1] by simp
qed

lemma is_switcher_originator_iff:
  "is_switcher_originator message \<longleftrightarrow>
     take 2 message = [0xFE, 0xF0] \<and>
     (length message = 165 \<or> length message = 168 \<or> length message = 159)"
proof -
  have "slice 0 4 (hexlify message) = hexlify (slice 0 2 message)"
    using slice_hexlify [of 0 2 message] by simp
  moreover have "hexlify [0xFE, 0xF0] = ''fef0''"
    by (simp add: hexlify_Cons hexlify_byte_def hex_char_def)
  ultimately have "slice 0 4 (hexlify message) = ''fef0'' \<longleftrightarrow> take 2 message = [0xFE, 0xF0]"
    using hexlify_inj [of "take 2 message" "[0xFE, 0xF0]"] by (simp add: slice_def)
  then show ?thesis
    by (simp add: is_switcher_originator_def)
qed

lemma get_device_state_byte:
  "133 < length message \<Longrightarrow> get_device_state message = (if message ! 133 = 1 then ON else OFF)"
proof -
  assume len: "133 < length message"
  have "slice 266 268 (hexlify message) = hexlify (slice 133 134 message)"
    using slice_hexlify [of 133 134 message] by simp
  also have "slice 133 134 message = [message ! 133]"
    using slice_single [of 133 message] len by simp
  finally show ?thesis
    by (simp add: get_device_state_def hexlify_byte_eq_01)
qed

lemma get_thermostat_state_byte:
  "137 < length message \<Longrightarrow>
     get_thermostat_state message = (if message ! 137 = 1 then ON else OFF)"
proof -
  assume len: "137 < length message"
  have "slice 137 138 message = [message ! 137]"
    using slice_single [of 137 message] len by simp
  then show ?thesis
    by (simp add: get_thermostat_state_def hexlify_byte_eq_01)
qed

lemma get_device_state_short:
  "length message \<le> 133 \<Longrightarrow> get_device_state message = OFF"
  by (simp add: get_device_state_def slice_def length_hexlify)

lemma get_power_consumption_bytes:
  assumes "137 \<le> length message"
  shows "get_power_consumption message =
     Inr (uint (message ! 136) * 256 + uint (message ! 135))"
proof -
  let ?h = "slice 270 278 (hexlify message)"
  have a: "slice 2 4 ?h = hexlify [message ! 136]"
    using slice_slice [of 4 278 270 2 "hexlify message"] slice_hexlify [of 136 137 message]
      slice_single [of 136 message] assms by simp
  have b: "slice 0 2 ?h = hexlify [message ! 135]"
    using slice_slice [of 2 278 270 0 "hexlify message"] slice_hexlify [of 135 136 message]
      slice_single [of 135 message] assms by simp
  have "slice 2 4 ?h @ slice 0 2 ?h = hexlify [message ! 136, message ! 135]"
    unfolding a b by (simp add: hexlify_Cons)
  then show ?thesis
    by (simp add: get_power_consumption_def Let_def py_int_hexlify)
qed

lemma hex_slices:
  "slice 0 4 (hexlify m) = hexlify (slice 0 2 m)"
  "slice 36 42 (hexlify m) = hexlify (slice 18 21 m)"
  "slice 152 160 (hexlify m) = hexlify (slice 76 80 m)"
  "slice 154 162 (hexlify m) = hexlify (slice 77 81 m)"
  "slice 160 172 (hexlify m) = hexlify (slice 80 86 m)"
  "slice 266 268 (hexlify m) = hexlify (slice 133 134 m)"
  "slice 270 278 (hexlify m) = hexlify (slice 135 139 m)"
  "slice 294 302 (hexlify m) = hexlify (slice 147 151 m)"
  "slice 310 318 (hexlify m) = hexlify (slice 155 159 m)"
  using slice_hexlify [of 0 2 m] slice_hexlify [of 18 21 m] slice_hexlify [of 76 80 m]
    slice_hexlify [of 77 81 m] slice_hexlify [of 80 86 m] slice_hexlify [of 133 134 m]
    slice_hexlify [of 135 139 m] slice_hexlify [of 147 151 m] slice_hexlify [of 155 159 m]
  by simp_all

lemma str_of_nat_digit: "n < 10 \<Longrightarrow> str_of_nat n = [dec_char n]"
  by (simp add: str_of_nat.simps)

lemma pad2_small: "n < 10 \<Longrightarrow> pad2 n = [CHR ''0'', dec_char n]"
  by (simp add: pad2_def str_of_nat_digit)

lemma pad2_two: "10 \<le> n \<Longrightarrow> n < 100 \<Longrightarrow> pad2 n = [dec_char (n div 10), dec_char (n mod 10)]"
  by (simp add: pad2_def str_of_nat.simps [of n] str_of_nat_digit)

lemma utf8_nuls: "utf8 (replicate n 0) = Some (replicate n 0)"
  by (induction n) simp_all

lemma rstrip_nul_nuls: "rstrip_nul (s @ replicate n 0) = rstrip_nul s"
  by (simp add: rstrip_nul_def dropWhile_append)

lemma rstrip_nul_single: "c \<noteq> 0 \<Longrightarrow> rstrip_nul [c] = [c]"
  by (simp add: rstrip_nul_def)

lemmas prim_defs =
  slice_def hexlify_Cons hexlify_byte_def hex_char_def py_int_def digit_val_def
  pack_L_le_def pack_L_be_def inet_ntoa_def str_of_octet_def dec_char_def upper_def
  upper_char_def decode_def cont_def py_dict_def Let_def utf8_nuls
  ThermostatSwing_OFF_value_def

lemmas parser_defs =
  is_switcher_originator_def get_ip_type1_def get_ip_type2_def get_mac_def get_name_def
  get_device_id_def get_device_state_def get_auto_shutdown_def get_power_consumption_def
  get_remaining_def get_device_type_def get_shutter_position_def get_shutter_direction_def
  get_thermostat_temp_def get_thermostat_state_def get_thermostat_mode_def
  get_thermostat_target_temp_def get_thermostat_fan_level_def get_thermostat_swing_def
  get_thermostat_remote_id_def deliver_def new_water_heater_def new_power_plug_def
  new_shutter_def new_thermostat_def parse_device_from_datagram_def

lemmas sample_defs =
  sample_env_def sample_heater_def sample_plug_def sample_breeze_def sample_runner_def
  seconds_to_iso_time_spec_def watts_to_amps_spec_def pad2_small pad2_two

lemma name6: "c6 \<noteq> 0 \<Longrightarrow> rstrip_nul ([c1, c2, c3, c4, c5, c6] @ replicate n 0) = [c1, c2, c3, c4, c5, c6]"
  unfolding rstrip_nul_nuls by (simp add: rstrip_nul_def)

section \<open>What a delivered device tells about the datagram\<close>

lemma deliver_callback:
  "DeviceCallback dev \<in> set (fst (deliver msg built)) \<longleftrightarrow> built = Inr dev"
  by (cases built) (auto simp: deliver_def)

lemma delivered_cases:
  assumes "DeviceCallback dev \<in> set (fst (parse_device_from_datagram env d))"
  shows "is_switcher_originator d \<and>
    (\<exists>dt st p c. get_device_type env d = Inr dt \<and>
       st = (if dt = BREEZE env then get_thermostat_state d else get_device_state d) \<and>
       (if st = ON then get_power_consumption d = Inr p \<and> watts_to_amps env p = Inr c
        else p = 0 \<and> c = 0) \<and>
       (category dt = WATER_HEATER \<and> new_water_heater env d dt st p c = Inr dev
        \<or> category dt = POWER_PLUG \<and> new_power_plug d dt st p c = Inr dev
        \<or> category dt = SHUTTER \<and> new_shutter env d dt = Inr dev
        \<or> category dt = THERMOSTAT \<and> new_thermostat env d dt st = Inr dev))"
proof -
  have gate: "is_switcher_originator d"
    using assms by (auto simp: parse_device_from_datagram_def split: if_splits)
  obtain dt where dt: "get_device_type env d = Inr dt"
    using assms gate
    by (cases "get_device_type env d") (auto simp: parse_device_from_datagram_def)
  define st where "st = (if dt = BREEZE env then get_thermostat_state d else get_device_state d)"
  define pc where "pc = (if st = ON
                  then then_res (get_power_consumption d) (\<lambda>power_consumption.
                       then_res (watts_to_amps env power_consumption) (\<lambda>electric_current.
                         Inr (power_consumption, electric_current)))
                  else Inr (0, 0))"
  obtain p c where pc: "pc = Inr (p, c)"
    using assms gate dt
    by (cases pc) (auto simp: parse_device_from_datagram_def Let_def st_def pc_def)
  have pw: "if st = ON then get_power_consumption d = Inr p \<and> watts_to_amps env p = Inr c
        else p = 0 \<and> c = 0"
    using pc unfolding pc_def by (auto simp: then_res_Inr_iff split: if_splits)
  have "category dt = WATER_HEATER \<and> new_water_heater env d dt st p c = Inr dev
        \<or> category dt = POWER_PLUG \<and> new_power_plug d dt st p c = Inr dev
        \<or> category dt = SHUTTER \<and> new_shutter env d dt = Inr dev
        \<or> category dt = THERMOSTAT \<and> new_thermostat env d dt st = Inr dev"
    using assms gate dt pc [unfolded pc_def st_def]
    by (simp add: parse_device_from_datagram_def Let_def st_def [symmetric] deliver_callback
        split: if_splits)
  with gate dt pw st_def show ?thesis by blast
qed

lemma new_water_heater_Inr:
  "new_water_heater env d dt st p c = Inr dev \<Longrightarrow>
     \<exists>ip nm r a. dev = SwitcherWaterHeater dt st (get_device_id d) ip (get_mac d) nm p c r a \<and>
       (st \<noteq> ON \<longrightarrow> r = ''00:00:00'')"
  by (auto simp: new_water_heater_def then_res_Inr_iff split: if_splits)

lemma new_power_plug_Inr:
  "new_power_plug d dt st p c = Inr dev \<Longrightarrow>
     \<exists>ip nm. dev = SwitcherPowerPlug dt st (get_device_id d) ip (get_mac d) nm p c"
  by (auto simp: new_power_plug_def then_res_Inr_iff)

lemma new_shutter_Inr:
  "new_shutter env d dt = Inr dev \<Longrightarrow>
     \<exists>ip nm dir pos. dev = SwitcherShutter dt ON (get_device_id d) ip (get_mac d) nm pos dir \<and>
        get_shutter_position d = Inr pos"
  by (auto simp: new_shutter_def then_res_Inr_iff)

lemma new_thermostat_Inr:
  "new_thermostat env d dt st = Inr dev \<Longrightarrow>
     \<exists>ip nm t tt fl rid. dev = SwitcherThermostat dt st (get_device_id d) ip (get_mac d) nm
        (get_thermostat_mode env d) t tt fl (get_thermostat_swing d) rid"
  by (auto simp: new_thermostat_def then_res_Inr_iff)

lemma delivered_kind:
  assumes "DeviceCallback dev \<in> set (fst (parse_device_from_datagram env d))"
  shows "is_switcher_originator d \<and>
    (\<exists>dt st p c. get_device_type env d = Inr dt \<and> category dt = kind dev \<and>
       st = (if dt = BREEZE env then get_thermostat_state d else get_device_state d) \<and>
       (if st = ON then get_power_consumption d = Inr p \<and> watts_to_amps env p = Inr c
        else p = 0 \<and> c = 0) \<and>
       (kind dev = WATER_HEATER \<longrightarrow> new_water_heater env d dt st p c = Inr dev) \<and>
       (kind dev = POWER_PLUG \<longrightarrow> new_power_plug d dt st p c = Inr dev) \<and>
       (kind dev = SHUTTER \<longrightarrow> new_shutter env d dt = Inr dev) \<and>
       (kind dev = THERMOSTAT \<longrightarrow> new_thermostat env d dt st = Inr dev))"
  using delivered_cases [OF assms]
  apply (elim conjE exE)
  subgoal for dt st p c
    apply (intro conjI, assumption)
    apply (rule exI [of _ dt], rule exI [of _ st], rule exI [of _ p], rule exI [of _ c])
    apply (elim disjE conjE)
    by (auto dest!: new_water_heater_Inr new_power_plug_Inr new_shutter_Inr new_thermostat_Inr)
  done

lemma gate_length: "is_switcher_originator d \<Longrightarrow> 159 \<le> length d"
  by (auto simp: is_switcher_originator_def)

section \<open>Sample runs\<close>

lemma run_heater_on:
  "parse_device_from_datagram sample_env (type1_datagram 1 0 0x42 1) =
     ([LogDebug ''discovered a water heater switcher device'',
       DeviceCallback
         (SwitcherWaterHeater sample_heater ON ''3933ac'' ''4.3.2.1'' ''12:A1:A2:1A:BC:1A''
            [66, 111, 105, 108, 101, 114] 1440 (13 / 2) ''01:08:30'' ''01:00:00'')],
      None)"
  unfolding parser_defs hex_slices type1_datagram_def
  using name6 [of 114 66 111 105 108 101 26]
  by (simp add: prim_defs sample_defs)

lemma run_heater_off:
  "parse_device_from_datagram sample_env (type1_datagram 1 0 0x42 0) =
     ([LogDebug ''discovered a water heater switcher device'',
       DeviceCallback
         (SwitcherWaterHeater sample_heater OFF ''3933ac'' ''4.3.2.1'' ''12:A1:A2:1A:BC:1A''
            [66, 111, 105, 108, 101, 114] 0 0 ''00:00:00'' ''01:00:00'')],
      None)"
  unfolding parser_defs hex_slices type1_datagram_def
  using name6 [of 114 66 111 105 108 101 26]
  by (simp add: prim_defs sample_defs)

lemma run_plug_off:
  "parse_device_from_datagram sample_env (type1_datagram 1 0xA8 0x42 0) =
     ([LogDebug ''discovered a power plug switcher device'',
       DeviceCallback
         (SwitcherPowerPlug sample_plug OFF ''3933ac'' ''4.3.2.1'' ''12:A1:A2:1A:BC:1A''
            [66, 111, 105, 108, 101, 114] 0 0)],
      None)"
  unfolding parser_defs hex_slices type1_datagram_def
  using name6 [of 114 66 111 105 108 101 26]
  by (simp add: prim_defs sample_defs)

lemma run_bad_name:
  "parse_device_from_datagram sample_env (type1_datagram 1 0 0xFF 1) =
     ([LogDebug ''discovered a water heater switcher device''], Some UnicodeDecodeError)"
  unfolding parser_defs hex_slices type1_datagram_def
  by (simp add: prim_defs sample_defs)

lemma run_unknown_model:
  "parse_device_from_datagram sample_env (type1_datagram 0xFF 0xFF 0x42 1) =
     ([], Some KeyError)"
  unfolding parser_defs hex_slices type1_datagram_def
  by (simp add: prim_defs sample_defs)

lemma run_shutter:
  "parse_device_from_datagram sample_env (shutter_datagram 0x32 0) =
     ([LogDebug ''discovered a Runner switch switcher device'',
       DeviceCallback
         (SwitcherShutter sample_runner ON ''3933ac'' ''192.168.1.10'' ''0A:A1:A2:1A:BC:1A''
            [82, 117, 110, 110, 101, 114] 50 SHUTTER_STOP)],
      None)"
  unfolding parser_defs hex_slices shutter_datagram_def
  using name6 [of 114 82 117 110 110 101 26]
  by (simp add: prim_defs sample_defs)


lemma run_breeze_heat:
  "parse_device_from_datagram sample_env (breeze_datagram 5) =
     ([LogDebug ''discovered a Breeze switcher device'',
       DeviceCallback
         (SwitcherThermostat sample_breeze ON ''3933ac'' ''192.168.1.11'' ''0B:A1:A2:1A:BC:1A''
            [66, 114, 101, 101, 122, 101] HEAT 23 24 LOW SWING_OFF
            [69, 76, 69, 67, 55, 48, 50, 50])],
      None)"
  unfolding parser_defs hex_slices breeze_datagram_def
  using name6 [of 101 66 114 101 101 122 26]
  by (simp add: prim_defs sample_defs)

lemma run_breeze_unknown_mode:
  "parse_device_from_datagram sample_env (breeze_datagram 9) =
     ([LogDebug ''discovered a Breeze switcher device'',
       DeviceCallback
         (SwitcherThermostat sample_breeze ON ''3933ac'' ''192.168.1.11'' ''0B:A1:A2:1A:BC:1A''
            [66, 114, 101, 101, 122, 101] COOL 23 24 LOW SWING_OFF
            [69, 76, 69, 67, 55, 48, 50, 50])],
      None)"
  unfolding parser_defs hex_slices breeze_datagram_def
  using name6 [of 101 66 114 101 101 122 26]
  by (simp add: prim_defs sample_defs)

lemma run_foreign:
  "parse_device_from_datagram sample_env foreign_datagram =
     ([LogDebug ''received datagram from an unknown source''], None)"
  unfolding parser_defs hex_slices foreign_datagram_def
  by (simp add: prim_defs sample_defs)

lemma shutter_state_byte: "get_device_state (shutter_datagram a b) = OFF"
  using get_device_state_byte [of "shutter_datagram a b"]
  by (simp add: shutter_datagram_def nth_append)

lemma type1_power_bytes: "get_power_consumption (type1_datagram a b c d) = Inr 1440"
  using get_power_consumption_bytes [of "type1_datagram a b c d"]
  by (simp add: type1_datagram_def nth_append)

lemma breeze_mode_byte: "breeze_datagram m ! 138 = m"
  by (simp add: breeze_datagram_def nth_append)

lemma sample_modes:
  "ThermostatMode_members sample_env =
     [(''01'', AUTO), (''02'', DRY), (''03'', FAN), (''04'', COOL), (''05'', HEAT)]"
  by (simp add: sample_env_def)

lemma get_thermostat_mode_byte:
  assumes "138 < length d"
  shows "get_thermostat_mode env d =
     (case py_dict (ThermostatMode_members env) (hexlify_byte (d ! 138)) of
        None \<Rightarrow> COOL | Some m \<Rightarrow> m)"
proof -
  have "slice 138 139 d = [d ! 138]"
    using slice_single [of 138 d] assms by simp
  then show ?thesis
    by (simp add: get_thermostat_mode_def)
qed

lemma deliver_no_warning: "warnings (fst (deliver msg built)) = []"
  by (cases built) (simp_all add: deliver_def)

lemma category_cases:
  "category dt = WATER_HEATER \<or> category dt = POWER_PLUG \<or> category dt = SHUTTER \<or>
   category dt = THERMOSTAT"
  by (cases "category dt") simp_all

lemma parse_known_model:
  assumes "is_switcher_originator b" and "get_device_type env b = Inr dt"
  shows "parse_device_from_datagram env b =
     (let st = (if dt = BREEZE env then get_thermostat_state b else get_device_state b) in
      case (if st = ON
            then then_res (get_power_consumption b) (\<lambda>p.
                 then_res (watts_to_amps env p) (\<lambda>c. Inr (p, c)))
            else Inr (0, 0)) of
        Inl e \<Rightarrow> ([], Some e)
      | Inr (p, c) \<Rightarrow>
          if category dt = WATER_HEATER then
            deliver ''discovered a water heater switcher device''
              (new_water_heater env b dt st p c)
          else if category dt = POWER_PLUG then
            deliver ''discovered a power plug switcher device'' (new_power_plug b dt st p c)
          else if category dt = SHUTTER then
            deliver ''discovered a Runner switch switcher device'' (new_shutter env b dt)
          else deliver ''discovered a Breeze switcher device'' (new_thermostat env b dt st))"
  using assms
  by (cases "category dt")
    (simp_all add: parse_device_from_datagram_def Let_def cong: sum.case_cong prod.case_cong)

lemma warning_never_emitted: "warnings (fst (parse_device_from_datagram env d)) = []"
proof (cases "is_switcher_originator d")
  case False
  then show ?thesis by (simp add: parse_device_from_datagram_def)
next
  case True
  show ?thesis
  proof (cases "get_device_type env d")
    case (Inl e)
    with True show ?thesis by (simp add: parse_device_from_datagram_def)
  next
    case (Inr dt)
    show ?thesis
      unfolding parse_known_model [OF True Inr]
      by (simp add: Let_def deliver_no_warning split: sum.splits prod.splits)
  qed
qed

lemma type1_gate: "is_switcher_originator (type1_datagram a b c d)"
  by (simp add: is_switcher_originator_iff type1_datagram_def)

lemma type1_model: "hexlify (slice 74 76 (type1_datagram a b c d)) = hexlify [a, b]"
  by (simp add: type1_datagram_def slice_def)

lemma sample_types:
  "DeviceType_members sample_env = [sample_heater, sample_plug, sample_breeze, sample_runner]"
  by (simp add: sample_env_def)

lemma type1_head: "take 2 (type1_datagram a b c d) = [0xFE, 0xF0]"
  "length (type1_datagram a b c d) = 165"
  by (simp_all add: type1_datagram_def)

lemma shutter_head: "take 2 (shutter_datagram a b) = [0xFE, 0xF0]"
  "length (shutter_datagram a b) = 159"
  by (simp_all add: shutter_datagram_def)

lemma foreign_head: "take 2 foreign_datagram = [0xDE, 0xAD]" "length foreign_datagram = 165"
  by (simp_all add: foreign_datagram_def)

lemma deliver_outcome:
  "delivers_one (deliver msg built) \<or> raises_undelivered (deliver msg built)"
  by (cases built) (simp_all add: deliver_def)

lemma py_int_hexlify_byte_16: "py_int (hexlify_byte b) 16 = Inr (uint b)"
  using py_int_hexlify [of "[b]"] by simp

lemma py_int_hexlify_byte_10:
  "py_int (hexlify_byte b) 10 =
     (if unat b div 16 < 10 \<and> unat b mod 16 < 10
      then Inr (int (10 * (unat b div 16) + unat b mod 16))
      else Inl ValueError)"
proof -
  have lt: "unat b div 16 < 16" "unat b mod 16 < 16"
    using unat_byte_less [of b] by simp_all
  then show ?thesis
    by (simp add: py_int_def hexlify_byte_def digit_val_hex_char)
qed

lemma slice_pair_hexlify:
  assumes "137 \<le> length message"
  shows "hexlify (slice 135 137 message) =
     hexlify_byte (message ! 135) @ hexlify_byte (message ! 136)"
  using assms slice_nth [of 137 message 135] by (simp add: upt_rec_numeral hexlify_Cons)

lemma shutter_position_bytes_at:
  "shutter_datagram a b ! 135 = a" "shutter_datagram a b ! 136 = b"
  by (simp_all add: shutter_datagram_def nth_append)

lemma type1_fields:
  "slice 0 2 (type1_datagram a b c e) = [0xFE, 0xF0]"
  "slice 18 21 (type1_datagram a b c e) = [0x39, 0x33, 0xAC]"
  "slice 74 76 (type1_datagram a b c e) = [a, b]"
  "slice 76 80 (type1_datagram a b c e) = [0x04, 0x03, 0x02, 0x01]"
  "slice 133 134 (type1_datagram a b c e) = [e]"
  "slice 135 137 (type1_datagram a b c e) = [0xA0, 0x05]"
  "slice 147 151 (type1_datagram a b c e) = [0x0E, 0x10, 0x00, 0x00]"
  by (simp_all add: type1_datagram_def slice_def)

lemma type1_name: "get_name (type1_datagram a b 0x42 e) = Inr [66, 111, 105, 108, 101, 114]"
  unfolding get_name_def type1_datagram_def
  using name6 [of 114 66 111 105 108 101 26]
  by (simp add: prim_defs)

lemma type1_mac: "get_mac (type1_datagram a b c e) = ''12:A1:A2:1A:BC:1A''"
  unfolding get_mac_def hex_slices type1_datagram_def
  by (simp add: prim_defs)

lemma type1_auto_shutdown:
  "get_auto_shutdown sample_env (type1_datagram a b c e) = Inr ''01:00:00''"
  unfolding get_auto_shutdown_def hex_slices type1_datagram_def
  by (simp add: prim_defs sample_defs)

lemma sample_helpers:
  "watts_to_amps sample_env 1440 = Inr (13 / 2)"
  "seconds_to_iso_time sample_env 4110 = Inr ''01:08:30''"
  "BREEZE sample_env = sample_breeze"
  "py_dict (map (\<lambda>t. (hex_rep t, t)) (DeviceType_members sample_env)) ''0100'' =
     Some sample_heater"
  "category sample_heater = WATER_HEATER"
  "sample_heater \<noteq> sample_breeze"
  by (simp_all add: sample_defs py_dict_def dec_char_def)

lemma then_res_assoc:
  "then_res (then_res m f) g = then_res m (\<lambda>x. then_res (f x) g)"
  by (cases m) simp_all

lemma get_auto_shutdown_bytes:
  assumes "159 \<le> length message"
  shows "get_auto_shutdown env message =
     seconds_to_iso_time env
       (((uint (message ! 158) * 256 + uint (message ! 157)) * 256 + uint (message ! 156)) * 256
        + uint (message ! 155))"
proof -
  let ?a = "message ! 155" and ?b = "message ! 156" and ?c = "message ! 157"
    and ?e = "message ! 158"
  let ?h = "hexlify_byte ?a @ hexlify_byte ?b @ hexlify_byte ?c @ hexlify_byte ?e"
  have "slice 155 159 message = [?a, ?b, ?c, ?e]"
    using assms slice_nth [of 159 message 155] by (simp add: upt_rec_numeral)
  then have h: "slice 310 318 (hexlify message) = ?h"
    by (simp add: hex_slices hexlify_Cons)
  have "slice 6 8 ?h @ slice 4 6 ?h @ slice 2 4 ?h @ slice 0 2 ?h = hexlify [?e, ?c, ?b, ?a]"
    by (simp add: slice_def hexlify_Cons)
  then show ?thesis
    unfolding get_auto_shutdown_def h Let_def
    by (simp add: py_int_hexlify)
qed

lemma type1_decode:
  "decode (slice 42 74 (type1_datagram a b 0x42 e)) =
     Inr ([66, 111, 105, 108, 101, 114] @ replicate 26 0)"
  "decode (slice 42 74 (type1_datagram a b 0xFF e)) = Inl UnicodeDecodeError"
  unfolding type1_datagram_def
  by (simp_all add: prim_defs)

lemma type1_auto_bytes:
  "type1_datagram a b c e ! 155 = 0x10" "type1_datagram a b c e ! 156 = 0x0E"
  "type1_datagram a b c e ! 157 = 0" "type1_datagram a b c e ! 158 = 0"
  by (simp_all add: type1_datagram_def nth_append)

lemma sample_iso_3600: "seconds_to_iso_time sample_env 3600 = Inr ''01:00:00''"
  by (simp add: sample_defs dec_char_def)

section \<open>The claims\<close>

text \<open>
  Claim C10. In the type-1 device-state parser (byte at offset 133) and in the Breeze on/off
  parser (byte at offset 137), exactly the byte \<^verbatim>\<open>01\<close> decodes as on; every other byte,
  not only \<^verbatim>\<open>00\<close>, decodes as off. Every accepted datagram has at least 159 bytes, so
  both offsets are present.
\<close>

theorem state_byte_decoding:
  assumes "137 < length message"
  shows "get_device_state message = (if message ! 133 = 1 then ON else OFF) \<and>
         get_thermostat_state message = (if message ! 137 = 1 then ON else OFF)"
  using assms by (simp add: get_device_state_byte get_thermostat_state_byte)

theorem state_byte_decoding_witness:
  "137 < length (type1_datagram 1 0 0x42 0xFF) \<and>
   get_device_state (type1_datagram 1 0 0x42 0xFF) = OFF \<and>
   get_device_state (type1_datagram 1 0 0x42 1) = ON \<and>
   get_thermostat_state (breeze_datagram 4) = ON \<and>
   get_thermostat_state (type1_datagram 1 0 0x42 1) = OFF"
  using state_byte_decoding [of "type1_datagram 1 0 0x42 0xFF"]
    state_byte_decoding [of "type1_datagram 1 0 0x42 1"]
    state_byte_decoding [of "breeze_datagram 4"]
  by (simp add: type1_datagram_def breeze_datagram_def nth_append)

text \<open>
  Claim C9. Every shutter record handed to the sink has device state on, whatever the
  datagram holds: the callback passes the constant \<^verbatim>\<open>DeviceState.ON\<close>.
\<close>

theorem shutter_state_always_on:
  assumes "DeviceCallback dev \<in> set (fst (parse_device_from_datagram env datagram))"
    and "kind dev = SHUTTER"
  shows "device_state dev = ON"
proof -
  obtain dt where "new_shutter env datagram dt = Inr dev"
    using delivered_kind [OF assms(1)] assms(2) by auto
  then show ?thesis
    by (auto dest: new_shutter_Inr)
qed

theorem shutter_state_always_on_witness:
  "DeviceCallback
     (SwitcherShutter sample_runner ON ''3933ac'' ''192.168.1.10'' ''0A:A1:A2:1A:BC:1A''
        [82, 117, 110, 110, 101, 114] 50 SHUTTER_STOP)
     \<in> set (fst (parse_device_from_datagram sample_env (shutter_datagram 0x32 0))) \<and>
   get_device_state (shutter_datagram 0x32 0) = OFF \<and>
   device_state
     (SwitcherShutter sample_runner ON ''3933ac'' ''192.168.1.10'' ''0A:A1:A2:1A:BC:1A''
        [82, 117, 110, 110, 101, 114] 50 SHUTTER_STOP) = ON"
  using shutter_state_always_on [of
      "SwitcherShutter sample_runner ON ''3933ac'' ''192.168.1.10'' ''0A:A1:A2:1A:BC:1A''
         [82, 117, 110, 110, 101, 114] 50 SHUTTER_STOP"
      sample_env "shutter_datagram 0x32 0"]
    shutter_state_byte
  by (simp add: run_shutter)

text \<open>
  Claim C6. A water heater or power plug record whose state is off has power consumption 0
  and electric current 0.0, and a water heater record whose state is off has the remaining
  time \<^verbatim>\<open>00:00:00\<close>, regardless of the power and remaining bytes of the datagram.
\<close>

theorem off_means_zero:
  assumes "DeviceCallback dev \<in> set (fst (parse_device_from_datagram env datagram))"
    and "device_state dev = OFF"
  shows "(kind dev = WATER_HEATER \<or> kind dev = POWER_PLUG \<longrightarrow>
            power_consumption dev = Some 0 \<and> electric_current dev = Some 0) \<and>
         (kind dev = WATER_HEATER \<longrightarrow> remaining_time dev = Some ''00:00:00'')"
proof -
  obtain dt st p c where
    st: "if st = ON then get_power_consumption datagram = Inr p \<and> watts_to_amps env p = Inr c
         else p = 0 \<and> c = 0"
    and wh: "kind dev = WATER_HEATER \<longrightarrow> new_water_heater env datagram dt st p c = Inr dev"
    and pp: "kind dev = POWER_PLUG \<longrightarrow> new_power_plug datagram dt st p c = Inr dev"
    using delivered_kind [OF assms(1)] by blast
  have "kind dev = WATER_HEATER \<Longrightarrow>
      power_consumption dev = Some 0 \<and> electric_current dev = Some 0 \<and>
      remaining_time dev = Some ''00:00:00''"
  proof -
    assume "kind dev = WATER_HEATER"
    with wh obtain ip nm r a where
      dev: "dev = SwitcherWaterHeater dt st (get_device_id datagram) ip (get_mac datagram) nm p c r a"
      and r: "st \<noteq> ON \<longrightarrow> r = ''00:00:00''"
      using new_water_heater_Inr by blast
    from dev assms(2) have "st = OFF" by simp
    with st r dev show ?thesis by simp
  qed
  moreover have "kind dev = POWER_PLUG \<Longrightarrow>
      power_consumption dev = Some 0 \<and> electric_current dev = Some 0"
  proof -
    assume "kind dev = POWER_PLUG"
    with pp obtain ip nm where
      dev: "dev = SwitcherPowerPlug dt st (get_device_id datagram) ip (get_mac datagram) nm p c"
      using new_power_plug_Inr by blast
    from dev assms(2) have "st = OFF" by simp
    with st dev show ?thesis by simp
  qed
  ultimately show ?thesis by blast
qed

theorem off_means_zero_witness:
  "DeviceCallback
     (SwitcherWaterHeater sample_heater OFF ''3933ac'' ''4.3.2.1'' ''12:A1:A2:1A:BC:1A''
        [66, 111, 105, 108, 101, 114] 0 0 ''00:00:00'' ''01:00:00'')
     \<in> set (fst (parse_device_from_datagram sample_env (type1_datagram 1 0 0x42 0))) \<and>
   DeviceCallback
     (SwitcherPowerPlug sample_plug OFF ''3933ac'' ''4.3.2.1'' ''12:A1:A2:1A:BC:1A''
        [66, 111, 105, 108, 101, 114] 0 0)
     \<in> set (fst (parse_device_from_datagram sample_env (type1_datagram 1 0xA8 0x42 0))) \<and>
   get_power_consumption (type1_datagram 1 0 0x42 0) = Inr 1440"
  using off_means_zero [of
      "SwitcherWaterHeater sample_heater OFF ''3933ac'' ''4.3.2.1'' ''12:A1:A2:1A:BC:1A''
         [66, 111, 105, 108, 101, 114] 0 0 ''00:00:00'' ''01:00:00''"
      sample_env "type1_datagram 1 0 0x42 0"]
    off_means_zero [of
      "SwitcherPowerPlug sample_plug OFF ''3933ac'' ''4.3.2.1'' ''12:A1:A2:1A:BC:1A''
         [66, 111, 105, 108, 101, 114] 0 0"
      sample_env "type1_datagram 1 0xA8 0x42 0"]
    type1_power_bytes
  by (simp add: run_heater_off run_plug_off)

text \<open>
  Claim C7. For a Breeze record handed to the sink: if the hex code of the mode byte at
  offset 138 is not the value of a thermostat mode, the record's mode is cool; if it is, the
  record's mode is the one the code maps to.
\<close>

theorem thermostat_mode_default_cool:
  assumes "DeviceCallback dev \<in> set (fst (parse_device_from_datagram env datagram))"
    and "kind dev = THERMOSTAT"
  shows "(hexlify_byte (datagram ! 138) \<notin> fst ` set (ThermostatMode_members env) \<longrightarrow>
            thermostat_mode dev = Some COOL) \<and>
         (hexlify_byte (datagram ! 138) \<in> fst ` set (ThermostatMode_members env) \<longrightarrow>
            (\<exists>m. thermostat_mode dev = Some m \<and>
                 py_dict (ThermostatMode_members env) (hexlify_byte (datagram ! 138)) = Some m \<and>
                 (hexlify_byte (datagram ! 138), m) \<in> set (ThermostatMode_members env)))"
proof -
  let ?code = "hexlify_byte (datagram ! 138)"
  let ?states = "py_dict (ThermostatMode_members env)"
  obtain dt st where "new_thermostat env datagram dt st = Inr dev"
    and gate: "is_switcher_originator datagram"
    using delivered_kind [OF assms(1)] assms(2) by auto
  then have "thermostat_mode dev = Some (get_thermostat_mode env datagram)"
    by (auto dest: new_thermostat_Inr)
  moreover have "138 < length datagram"
    using gate_length [OF gate] by simp
  ultimately have m: "thermostat_mode dev = Some (case ?states ?code of None \<Rightarrow> COOL | Some m \<Rightarrow> m)"
    by (simp add: get_thermostat_mode_byte)
  show ?thesis
  proof (cases "?states ?code")
    case None
    with m show ?thesis by (simp add: py_dict_None_iff)
  next
    case (Some x)
    then have "?code \<in> fst ` set (ThermostatMode_members env)"
      using py_dict_None_iff [of "ThermostatMode_members env" ?code] by simp
    with m Some py_dict_SomeD [OF Some] show ?thesis by simp
  qed
qed

theorem thermostat_mode_default_cool_witness:
  "DeviceCallback
     (SwitcherThermostat sample_breeze ON ''3933ac'' ''192.168.1.11'' ''0B:A1:A2:1A:BC:1A''
        [66, 114, 101, 101, 122, 101] COOL 23 24 LOW SWING_OFF
        [69, 76, 69, 67, 55, 48, 50, 50])
     \<in> set (fst (parse_device_from_datagram sample_env (breeze_datagram 9))) \<and>
   hexlify_byte (breeze_datagram 9 ! 138) \<notin> fst ` set (ThermostatMode_members sample_env) \<and>
   DeviceCallback
     (SwitcherThermostat sample_breeze ON ''3933ac'' ''192.168.1.11'' ''0B:A1:A2:1A:BC:1A''
        [66, 114, 101, 101, 122, 101] HEAT 23 24 LOW SWING_OFF
        [69, 76, 69, 67, 55, 48, 50, 50])
     \<in> set (fst (parse_device_from_datagram sample_env (breeze_datagram 5))) \<and>
   (hexlify_byte (breeze_datagram 5 ! 138), HEAT) \<in> set (ThermostatMode_members sample_env)"
  using thermostat_mode_default_cool [of
      "SwitcherThermostat sample_breeze ON ''3933ac'' ''192.168.1.11'' ''0B:A1:A2:1A:BC:1A''
         [66, 114, 101, 101, 122, 101] COOL 23 24 LOW SWING_OFF
         [69, 76, 69, 67, 55, 48, 50, 50]"
      sample_env "breeze_datagram 9"]
    thermostat_mode_default_cool [of
      "SwitcherThermostat sample_breeze ON ''3933ac'' ''192.168.1.11'' ''0B:A1:A2:1A:BC:1A''
         [66, 114, 101, 101, 122, 101] HEAT 23 24 LOW SWING_OFF
         [69, 76, 69, 67, 55, 48, 50, 50]"
      sample_env "breeze_datagram 5"]
    breeze_mode_byte [of 9] breeze_mode_byte [of 5]
  by (simp add: run_breeze_unknown_mode run_breeze_heat sample_modes hexlify_byte_def
      hex_char_def)

text \<open>
  Claim C3. A datagram that passes the magic-and-length gate but whose model code at offset
  74 is not the \<open>hex_rep\<close> of a device type should produce no device and a warning. The
  callback has the warning branch, but \<open>get_device_type\<close> indexes the dictionary of device
  types with the unknown code first, so the call ends with \<^verbatim>\<open>KeyError\<close>: no device, no
  sink call, and no warning either (\<open>warning_never_emitted\<close>).
\<close>

theorem unknown_model_raises_KeyError:
  assumes "is_switcher_originator datagram"
    and "hexlify (slice 74 76 datagram) \<notin> hex_rep ` set (DeviceType_members env)"
  shows "parse_device_from_datagram env datagram = ([], Some KeyError)"
proof -
  have "fst ` set (map (\<lambda>d. (hex_rep d, d)) (DeviceType_members env)) =
      hex_rep ` set (DeviceType_members env)"
    by (simp add: image_image)
  with assms(2) have "get_device_type env datagram = Inl KeyError"
    by (simp add: get_device_type_def Let_def py_dict_None_iff [THEN iffD2])
  with assms(1) show ?thesis
    by (simp add: parse_device_from_datagram_def)
qed

theorem unknown_model_raises_KeyError_witness:
  "is_switcher_originator (type1_datagram 0xFF 0xFF 0x42 1) \<and>
   hexlify (slice 74 76 (type1_datagram 0xFF 0xFF 0x42 1)) = ''ffff'' \<and>
   parse_device_from_datagram sample_env (type1_datagram 0xFF 0xFF 0x42 1) =
     ([], Some KeyError)"
  using unknown_model_raises_KeyError [of "type1_datagram 0xFF 0xFF 0x42 1" sample_env]
  by (simp add: type1_gate type1_model sample_types hexlify_Cons hexlify_byte_def hex_char_def
      sample_heater_def sample_plug_def sample_breeze_def sample_runner_def)




text \<open>
  Claim C2, amended. The model is a function of the datagram (and of the tables and helpers
  of the device module), so parsing terminates and identical inputs give identical
  outcomes. When the gate fails the call writes the debug line and returns. When the gate
  holds and the model code is known, the call either hands exactly one device to the sink
  or ends with an exception, raised before any device is handed over. It is not true that
  the call never raises.
\<close>

theorem parse_outcome:
  "(\<not> is_switcher_originator b \<longrightarrow>
      parse_device_from_datagram env b =
        ([LogDebug ''received datagram from an unknown source''], None)) \<and>
   (is_switcher_originator b \<and> get_device_type env b = Inr dt \<longrightarrow>
      delivers_one (parse_device_from_datagram env b) \<or>
      raises_undelivered (parse_device_from_datagram env b))"
proof (intro conjI impI)
  assume "\<not> is_switcher_originator b"
  then show "parse_device_from_datagram env b =
      ([LogDebug ''received datagram from an unknown source''], None)"
    by (simp add: parse_device_from_datagram_def)
next
  assume a: "is_switcher_originator b \<and> get_device_type env b = Inr dt"
  then have gate: "is_switcher_originator b" and dt: "get_device_type env b = Inr dt"
    by simp_all
  show "delivers_one (parse_device_from_datagram env b) \<or>
      raises_undelivered (parse_device_from_datagram env b)"
    unfolding parse_known_model [OF gate dt]
    by (simp add: Let_def deliver_outcome split: sum.splits prod.splits)
qed

theorem parse_outcome_witness:
  "\<not> is_switcher_originator foreign_datagram \<and>
   parse_device_from_datagram sample_env foreign_datagram =
     ([LogDebug ''received datagram from an unknown source''], None) \<and>
   is_switcher_originator (type1_datagram 1 0 0x42 1) \<and>
   get_device_type sample_env (type1_datagram 1 0 0x42 1) = Inr sample_heater \<and>
   delivers_one (parse_device_from_datagram sample_env (type1_datagram 1 0 0x42 1)) \<and>
   get_device_type sample_env (type1_datagram 1 0 0xFF 1) = Inr sample_heater \<and>
   raises_undelivered (parse_device_from_datagram sample_env (type1_datagram 1 0 0xFF 1))"
proof -
  have t: "get_device_type sample_env (type1_datagram 1 0 c d) = Inr sample_heater" for c d
    unfolding get_device_type_def type1_model
    by (simp add: sample_types sample_heater_def sample_plug_def sample_breeze_def
        sample_runner_def py_dict_def hexlify_Cons hexlify_byte_def hex_char_def)
  have f: "\<not> is_switcher_originator foreign_datagram"
    by (simp add: is_switcher_originator_iff foreign_head)
  show ?thesis
    using parse_outcome [of foreign_datagram sample_env sample_heater]
      parse_outcome [of "type1_datagram 1 0 0x42 1" sample_env sample_heater]
    by (simp add: t f type1_gate run_heater_on run_bad_name run_foreign)
qed

text \<open>
  Claim C2 as stated fails: for a water heater datagram whose name field starts with the
  byte \<^verbatim>\<open>FF\<close>, which is not valid UTF-8, the call raises \<^verbatim>\<open>UnicodeDecodeError\<close>.
\<close>

theorem parse_raises:
  "snd (parse_device_from_datagram sample_env (type1_datagram 1 0 0xFF 1)) =
     Some UnicodeDecodeError"
  by (simp add: run_bad_name)

text \<open>
  Claim C4, amended. The shutter position is the byte at offset 135 read as a hexadecimal
  number (its value) plus the two hex digits of the byte at offset 136 read as a decimal
  number; when a hex digit of the byte at offset 136 is one of \<^verbatim>\<open>a\<close>..\<^verbatim>\<open>f\<close> the parser
  raises \<^verbatim>\<open>ValueError\<close>. That is the reverse of the specification's table (first byte
  decimal, second byte hex).
\<close>

theorem shutter_position_bytes:
  assumes "137 \<le> length message"
  shows "get_shutter_position message =
     (if unat (message ! 136) div 16 < 10 \<and> unat (message ! 136) mod 16 < 10
      then Inr (uint (message ! 135) +
                int (10 * (unat (message ! 136) div 16) + unat (message ! 136) mod 16))
      else Inl ValueError)"
proof -
  let ?h = "hexlify_byte (message ! 135) @ hexlify_byte (message ! 136)"
  have a: "slice 2 4 ?h = hexlify_byte (message ! 136)"
    by (simp add: slice_def)
  have b: "slice 0 2 ?h = hexlify_byte (message ! 135)"
    by (simp add: slice_def)
  show ?thesis
    unfolding get_shutter_position_def slice_pair_hexlify [OF assms] Let_def a b
    by (simp add: py_int_hexlify_byte_16 py_int_hexlify_byte_10)
qed

theorem shutter_position_bytes_witness:
  "137 \<le> length (shutter_datagram 0x32 0x07) \<and>
   get_shutter_position (shutter_datagram 0x32 0x07) = Inr 57 \<and>
   get_shutter_position (shutter_datagram 0x32 0x0A) = Inl ValueError"
  using shutter_position_bytes [of "shutter_datagram 0x32 0x07"]
    shutter_position_bytes [of "shutter_datagram 0x32 0x0A"]
  by (simp add: shutter_head shutter_position_bytes_at)

text \<open>
  Claim C4 as stated fails: for the position bytes \<^verbatim>\<open>10 00\<close> the parser returns 16, where
  the reading of the specification gives 10.
\<close>

theorem shutter_position_not_as_specified:
  "get_shutter_position (shutter_datagram 0x10 0x00) = Inr 16 \<and>
   shutter_position_as_specified (shutter_datagram 0x10 0x00) = Inr 10"
proof -
  have h: "hexlify (slice 135 137 (shutter_datagram 0x10 0x00)) = ''1000''"
    using slice_pair_hexlify [of "shutter_datagram 0x10 0x00"]
    by (simp add: shutter_head shutter_position_bytes_at hexlify_byte_def hex_char_def)
  show ?thesis
    unfolding get_shutter_position_def shutter_position_as_specified_def h
    by (simp add: slice_def py_int_def digit_val_def)
qed

text \<open>
  Claim C5, amended. Take a 165-byte datagram with the magic \<^verbatim>\<open>FE F0\<close>, device id bytes
  \<^verbatim>\<open>39 33 AC\<close> at offset 18, model bytes \<^verbatim>\<open>01 00\<close> at offset 74 that resolve to a
  water heater type other than \<^verbatim>\<open>DeviceType.BREEZE\<close>, IP bytes \<^verbatim>\<open>04 03 02 01\<close> at
  offset 76, state byte \<^verbatim>\<open>01\<close> at offset 133, power bytes \<^verbatim>\<open>A0 05\<close> at offset 135 and
  remaining-seconds bytes \<^verbatim>\<open>0E 10 00 00\<close> at offset 147. If the 32-byte name field at
  offset 42 decodes as UTF-8 and the helpers return for 1440 watts, for 4110 seconds and
  for the auto-shutdown seconds (the four bytes at offset 155, little-endian), the call
  hands the sink a water heater record with id \<^verbatim>\<open>3933ac\<close>, IP \<^verbatim>\<open>4.3.2.1\<close> (the address
  bytes in the order they arrive), state on, power 1440, the current \<^verbatim>\<open>watts_to_amps\<close>
  returned for 1440 and the remaining time \<^verbatim>\<open>seconds_to_iso_time\<close> returned for 4110.
  If the name does not decode or one of the three helper calls raises, the call raises and
  no record reaches the sink. With the helpers as the specification describes them the
  current is 6.5 and the remaining time \<^verbatim>\<open>01:08:30\<close>, as the run on the sample datagram
  shows.
\<close>

theorem water_heater_scenario:
  assumes len: "length d = 165"
    and magic: "slice 0 2 d = [0xFE, 0xF0]"
    and dev_id: "slice 18 21 d = [0x39, 0x33, 0xAC]"
    and model: "slice 74 76 d = [0x01, 0x00]"
    and ip: "slice 76 80 d = [0x04, 0x03, 0x02, 0x01]"
    and state: "slice 133 134 d = [0x01]"
    and power: "slice 135 137 d = [0xA0, 0x05]"
    and rem: "slice 147 151 d = [0x0E, 0x10, 0x00, 0x00]"
    and known: "py_dict (map (\<lambda>t. (hex_rep t, t)) (DeviceType_members env)) ''0100'' = Some dt"
    and heater: "category dt = WATER_HEATER"
    and not_breeze: "dt \<noteq> BREEZE env"
  shows "(decode (slice 42 74 d) = Inr name \<and>
          watts_to_amps env 1440 = Inr current \<and>
          seconds_to_iso_time env 4110 = Inr remaining \<and>
          seconds_to_iso_time env
            (((uint (d ! 158) * 256 + uint (d ! 157)) * 256 + uint (d ! 156)) * 256
             + uint (d ! 155)) = Inr auto_shutdown \<longrightarrow>
          parse_device_from_datagram env d =
            ([LogDebug ''discovered a water heater switcher device'',
              DeviceCallback
                (SwitcherWaterHeater dt ON ''3933ac'' ''4.3.2.1'' (get_mac d)
                   (rstrip_nul name) 1440 current remaining auto_shutdown)],
             None)) \<and>
         (decode (slice 42 74 d) = Inl e \<or>
          watts_to_amps env 1440 = Inl e \<or>
          seconds_to_iso_time env 4110 = Inl e \<or>
          seconds_to_iso_time env
            (((uint (d ! 158) * 256 + uint (d ! 157)) * 256 + uint (d ! 156)) * 256
             + uint (d ! 155)) = Inl e \<longrightarrow>
          sink_calls (fst (parse_device_from_datagram env d)) = [] \<and>
          snd (parse_device_from_datagram env d) \<noteq> None)"
proof -
  let ?auto = "seconds_to_iso_time env
      (((uint (d ! 158) * 256 + uint (d ! 157)) * 256 + uint (d ! 156)) * 256 + uint (d ! 155))"
  let ?msg = "''discovered a water heater switcher device''"
  have gate: "is_switcher_originator d"
    using magic len by (simp add: is_switcher_originator_iff slice_def)
  have type: "get_device_type env d = Inr dt"
    unfolding get_device_type_def model using known
    by (simp add: hexlify_Cons hexlify_byte_def hex_char_def)
  have st: "get_device_state d = ON"
    unfolding get_device_state_def hex_slices state
    by (simp add: hexlify_byte_def hex_char_def)
  have bytes: "d ! 135 = 0xA0" "d ! 136 = 0x05"
    using power slice_nth [of 137 d 135] len by (simp_all add: upt_rec_numeral)
  have pw: "get_power_consumption d = Inr 1440"
    using get_power_consumption_bytes [of d] len by (simp add: bytes)
  have ident: "get_device_id d = ''3933ac''"
    unfolding get_device_id_def hex_slices dev_id
    by (simp add: hexlify_Cons hexlify_byte_def hex_char_def)
  have addr: "get_ip_type1 d = Inr ''4.3.2.1''"
    unfolding get_ip_type1_def hex_slices ip
    by (simp add: prim_defs)
  have remain: "get_remaining env d = seconds_to_iso_time env 4110"
    unfolding get_remaining_def hex_slices rem
    by (simp add: prim_defs)
  have auto: "get_auto_shutdown env d = ?auto"
    using get_auto_shutdown_bytes [of d env] len by simp
  have run: "parse_device_from_datagram env d =
      (case watts_to_amps env 1440 of
         Inl x \<Rightarrow> ([], Some x)
       | Inr c \<Rightarrow>
           deliver ?msg
             (then_res (decode (slice 42 74 d)) (\<lambda>s.
              then_res (seconds_to_iso_time env 4110) (\<lambda>r.
              then_res ?auto (\<lambda>a.
                Inr (SwitcherWaterHeater dt ON ''3933ac'' ''4.3.2.1'' (get_mac d)
                       (rstrip_nul s) 1440 c r a))))))"
    unfolding parse_known_model [OF gate type]
    by (cases "watts_to_amps env 1440")
      (simp_all add: not_breeze st pw heater new_water_heater_def addr get_name_def remain
        auto ident then_res_assoc)
  show ?thesis
  proof (intro conjI impI)
    assume "decode (slice 42 74 d) = Inr name \<and> watts_to_amps env 1440 = Inr current \<and>
        seconds_to_iso_time env 4110 = Inr remaining \<and> ?auto = Inr auto_shutdown"
    then show "parse_device_from_datagram env d =
        ([LogDebug ?msg,
          DeviceCallback
            (SwitcherWaterHeater dt ON ''3933ac'' ''4.3.2.1'' (get_mac d)
               (rstrip_nul name) 1440 current remaining auto_shutdown)],
         None)"
      unfolding run by (simp add: deliver_def)
  next
    assume fail: "decode (slice 42 74 d) = Inl e \<or> watts_to_amps env 1440 = Inl e \<or>
        seconds_to_iso_time env 4110 = Inl e \<or> ?auto = Inl e"
    have "sink_calls (fst (parse_device_from_datagram env d)) = [] \<and>
        snd (parse_device_from_datagram env d) \<noteq> None"
    proof (cases "watts_to_amps env 1440")
      case (Inl x)
      then show ?thesis unfolding run by simp
    next
      case c: (Inr c)
      show ?thesis
      proof (cases "decode (slice 42 74 d)")
        case (Inl x)
        with c show ?thesis unfolding run by (simp add: deliver_def)
      next
        case s: (Inr s)
        show ?thesis
        proof (cases "seconds_to_iso_time env 4110")
          case (Inl x)
          with c s show ?thesis unfolding run by (simp add: deliver_def)
        next
          case r: (Inr r)
          from fail c s r obtain x where "?auto = Inl x" by auto
          with c s r show ?thesis unfolding run by (simp add: deliver_def)
        qed
      qed
    qed
    then show "sink_calls (fst (parse_device_from_datagram env d)) = []"
      and "snd (parse_device_from_datagram env d) \<noteq> None"
      by simp_all
  qed
qed

theorem water_heater_scenario_witness:
  "parse_device_from_datagram sample_env (type1_datagram 0x01 0x00 0x42 0x01) =
     ([LogDebug ''discovered a water heater switcher device'',
       DeviceCallback
         (SwitcherWaterHeater sample_heater ON ''3933ac'' ''4.3.2.1'' ''12:A1:A2:1A:BC:1A''
            [66, 111, 105, 108, 101, 114] 1440 (13 / 2) ''01:08:30'' ''01:00:00'')],
      None) \<and>
   decode (slice 42 74 (type1_datagram 0x01 0x00 0xFF 0x01)) = Inl UnicodeDecodeError \<and>
   sink_calls (fst (parse_device_from_datagram sample_env
     (type1_datagram 0x01 0x00 0xFF 0x01))) = [] \<and>
   snd (parse_device_from_datagram sample_env (type1_datagram 0x01 0x00 0xFF 0x01)) \<noteq> None"
  using water_heater_scenario [of "type1_datagram 0x01 0x00 0x42 0x01" sample_env
      sample_heater "[66, 111, 105, 108, 101, 114] @ replicate 26 0" "13 / 2" "''01:08:30''"
      "''01:00:00''" UnicodeDecodeError]
    water_heater_scenario [of "type1_datagram 0x01 0x00 0xFF 0x01" sample_env
      sample_heater "[]" 0 "''''" "''''" UnicodeDecodeError]
    name6 [of 114 66 111 105 108 101 26]
  by (simp add: type1_head type1_fields type1_decode type1_mac type1_auto_bytes
      sample_iso_3600 sample_helpers)

text \<open>
  Claim C5 as stated fails: the record built from that datagram does not have the IP
  address \<^verbatim>\<open>1.2.3.4\<close>.
\<close>

theorem water_heater_ip_in_wire_order:
  "map ip_address
     (sink_calls (fst (parse_device_from_datagram sample_env
        (type1_datagram 0x01 0x00 0x42 0x01)))) \<noteq> [''1.2.3.4'']"
  by (simp add: run_heater_on)

text \<open>
  Claim C8. When the read after the login packet returns empty bytes, the operation fails
  with \<^verbatim>\<open>login request was not successful\<close> and exactly one write has been performed;
  when the login response is accepted and the read after the request returns empty bytes,
  it fails with \<^verbatim>\<open><operation> request was not successful\<close> after exactly two writes.
\<close>

theorem empty_read_fails:
  "(reader 0 = [] \<longrightarrow>
      result (run_operation well_formed_login operation reader) =
        Inl (RuntimeError ''login request was not successful'') \<and>
      length (writes (run_operation well_formed_login operation reader)) = 1) \<and>
   (reader 0 \<noteq> [] \<and> well_formed_login (reader 0) \<and> reader 1 = [] \<longrightarrow>
      result (run_operation well_formed_login operation reader) =
        Inl (RuntimeError (operation @ '' request was not successful'')) \<and>
      length (writes (run_operation well_formed_login operation reader)) = 2)"
  by (simp add: run_operation_def Let_def)

theorem empty_read_fails_witness:
  "result (run_operation (\<lambda>r. True) ''get state'' (\<lambda>n. [])) =
     Inl (RuntimeError ''login request was not successful'') \<and>
   length (writes (run_operation (\<lambda>r. True) ''get state'' (\<lambda>n. []))) = 1 \<and>
   result (run_operation (\<lambda>r. True) ''get state'' (\<lambda>n. if n = 0 then [0xFE, 0xF0] else [])) =
     Inl (RuntimeError ''get state request was not successful'') \<and>
   length (writes (run_operation (\<lambda>r. True) ''get state''
     (\<lambda>n. if n = 0 then [0xFE, 0xF0] else []))) = 2"
  using empty_read_fails [of "\<lambda>n. []" "\<lambda>r. True" "''get state''"]
    empty_read_fails [of "\<lambda>n. if n = 0 then [0xFE, 0xF0] else []" "\<lambda>r. True" "''get state''"]
  by simp

end
